theory Spec2Isabelle
  imports Main
begin

section \<open>JavaScript values\<close>

text \<open>
  The instrumentation is TypeScript over values of type \<^verbatim>\<open>any\<close>. A value is a
  primitive, an array (by value: the module never relies on the identity of an array) or a
  reference to an object of the store. Numbers are modelled as integers: the two numbers
  the module looks at (\<^verbatim>\<open>maxQueryLength\<close>, \<^verbatim>\<open>port\<close>) are counts; \<^verbatim>\<open>NaN\<close>,
  falsy as zero is, has no counterpart.
\<close>

type_synonym addr = nat

datatype jsval =
    JUndefined
  | JNull
  | JBool bool
  | JNum int
  | JStr string
  | JArr "jsval list"
  | JRef addr

text \<open>Truthiness, as \<^verbatim>\<open>if (v)\<close>, \<^verbatim>\<open>a || b\<close> and \<^verbatim>\<open>a && b\<close> test it.\<close>

fun truthy :: "jsval \<Rightarrow> bool" where
  "truthy JUndefined = False"
| "truthy JNull = False"
| "truthy (JBool b) = b"
| "truthy (JNum n) = (n \<noteq> 0)"
| "truthy (JStr s) = (s \<noteq> [])"
| "truthy (JArr xs) = True"
| "truthy (JRef a) = True"

definition js_or :: "jsval \<Rightarrow> jsval \<Rightarrow> jsval" where
  "js_or a b = (if truthy a then a else b)"

definition nullish :: "jsval \<Rightarrow> bool" where
  "nullish v = (v = JUndefined \<or> v = JNull)"

section \<open>Configuration\<close>

text \<open>
  An options object is a finite map from its own keys to values; a key may be present with
  the value \<^verbatim>\<open>undefined\<close> (\<^verbatim>\<open>{maxQueryLength: undefined}\<close>), which is not the
  same object as one without the key. Object spread \<^verbatim>\<open>{...a, ...b}\<close> copies every own
  key of \<^verbatim>\<open>a\<close> and then every own key of \<^verbatim>\<open>b\<close>, whatever its value.
\<close>

type_synonym config = "string \<rightharpoonup> jsval"

definition spread :: "config \<Rightarrow> config \<Rightarrow> config" where
  "spread a b = a ++ b"

definition DEFAULT_CONFIG :: config where
  "DEFAULT_CONFIG = [''maxQueryLength'' \<mapsto> JNum 1022, ''requireParentSpan'' \<mapsto> JBool False]"

text \<open>Reading a property of a plain object: a missing key reads as \<^verbatim>\<open>undefined\<close>.\<close>

definition read :: "config \<Rightarrow> string \<Rightarrow> jsval" where
  "read c k = (case c k of None \<Rightarrow> JUndefined | Some v \<Rightarrow> v)"

text \<open>
  The instrumentation object holds the effective configuration in \<^verbatim>\<open>_config\<close>; the
  base class stores the object it is handed. The parameter default \<^verbatim>\<open>config = {}\<close>
  replaces a missing argument (\<open>None\<close>) by the empty object.
\<close>

record instrumentation =
  config_of :: config

definition argument :: "config option \<Rightarrow> config" where
  "argument a = (case a of None \<Rightarrow> Map.empty | Some c \<Rightarrow> c)"

definition constructor :: "config option \<Rightarrow> instrumentation" where
  "constructor a = \<lparr>config_of = spread DEFAULT_CONFIG (argument a)\<rparr>"

definition setConfig :: "instrumentation \<Rightarrow> config option \<Rightarrow> instrumentation" where
  "setConfig inst a = inst\<lparr>config_of := spread DEFAULT_CONFIG (argument a)\<rparr>"

definition getConfig :: "instrumentation \<Rightarrow> config" where
  "getConfig inst = config_of inst"

text \<open>A sequence of reconfigurations, applied in order.\<close>

fun reconfigure :: "instrumentation \<Rightarrow> config option list \<Rightarrow> instrumentation" where
  "reconfigure inst [] = inst"
| "reconfigure inst (a # as) = reconfigure (setConfig inst a) as"

definition recognized :: "string set" where
  "recognized = {''maxQueryLength'', ''requireParentSpan''}"

section \<open>Method interception\<close>

text \<open>
  A method of a host object is a plain function, or a function installed by the
  interceptor, which carries the wrapped-marker and remembers the method it replaced
  (\<^verbatim>\<open>__original\<close>). Function bodies are left abstract (\<open>'f\<close>).
\<close>

datatype 'f jsfun = Plain 'f | Shim 'f "'f jsfun"

type_synonym 'f target = "string \<rightharpoonup> 'f jsfun"

text \<open>
  Modelled from the spec: \<^verbatim>\<open>isWrapped\<close>, \<^verbatim>\<open>_wrap\<close> and \<^verbatim>\<open>_unwrap\<close> come from the
  instrumentation base package and are not in the sources. The specification (4.1) has
  \<^verbatim>\<open>_wrap\<close> replace \<^verbatim>\<open>target[methodName]\<close> by \<^verbatim>\<open>wrapperFactory(originalMethod)\<close>,
  remember the original, and fail when the method is absent; \<^verbatim>\<open>_unwrap\<close> restores the
  remembered original; \<^verbatim>\<open>isWrapped\<close> detects the wrapped-marker.
\<close>

definition isWrapped :: "'f jsfun option \<Rightarrow> bool" where
  "isWrapped m = (case m of Some (Shim f orig) \<Rightarrow> True | _ \<Rightarrow> False)"

definition unwrap :: "'f target \<Rightarrow> string \<Rightarrow> 'f target" where
  "unwrap obj methodName =
     (case obj methodName of
        Some (Shim f orig) \<Rightarrow> obj(methodName \<mapsto> orig)
      | _ \<Rightarrow> obj)"

definition wrap :: "'f target \<Rightarrow> string \<Rightarrow> ('f jsfun \<Rightarrow> 'f) \<Rightarrow> 'f target option" where
  "wrap obj methodName wrapper =
     (case obj methodName of
        None \<Rightarrow> None
      | Some original \<Rightarrow> Some (obj(methodName \<mapsto> Shim (wrapper original) original)))"

text \<open>\<^verbatim>\<open>ensureWrapped\<close> of the source: unwrap when the marker is there, then wrap.\<close>

definition ensureWrapped ::
  "'f target \<Rightarrow> string \<Rightarrow> ('f jsfun \<Rightarrow> 'f) \<Rightarrow> 'f target option" where
  "ensureWrapped obj methodName wrapper =
     (let obj' = (if isWrapped (obj methodName) then unwrap obj methodName else obj)
      in wrap obj' methodName wrapper)"

text \<open>Repeated enabling: one \<^verbatim>\<open>ensureWrapped\<close> per wrapper of the list, in order.\<close>

fun ensureWrapped_all ::
  "'f target \<Rightarrow> string \<Rightarrow> ('f jsfun \<Rightarrow> 'f) list \<Rightarrow> 'f target option" where
  "ensureWrapped_all obj methodName [] = Some obj"
| "ensureWrapped_all obj methodName (w # ws) =
     (case ensureWrapped obj methodName w of
        None \<Rightarrow> None
      | Some obj' \<Rightarrow> ensureWrapped_all obj' methodName ws)"

text \<open>The method that one \<^verbatim>\<open>_unwrap\<close> would leave installed.\<close>

fun restored :: "'f jsfun \<Rightarrow> 'f jsfun" where
  "restored (Plain f) = Plain f"
| "restored (Shim f orig) = orig"

section \<open>Tracing collaborator\<close>

text \<open>
  Spans and contexts belong to the tracing API. A span is known by its handle; a context
  carries the span made current in it, if any (\<^verbatim>\<open>api.trace.getSpan\<close>), next to its
  other entries, which the number stands for. \<^verbatim>\<open>api.trace.setSpan\<close> derives a context
  with the given span.
\<close>

datatype span = Span nat

datatype otel_context = Context (entries: nat) (getSpan: "span option")

definition setSpan :: "otel_context \<Rightarrow> span \<Rightarrow> otel_context" where
  "setSpan c s = Context (entries c) (Some s)"

datatype SpanKind = INTERNAL | SERVER | CLIENT | PRODUCER | CONSUMER

text \<open>
  What the module asks of the tracer and of the host, in the order it asks:
  \<^item> \<open>StartSpan s name kind attributes parent\<close>: \<^verbatim>\<open>tracer.startSpan(name, {kind,
    attributes}, parent)\<close> returned the span \<open>s\<close>;
  \<^item> \<open>Invoke c this args\<close>: the original method was called on \<open>this\<close> with \<open>args\<close>
    while \<open>c\<close> was the ambient context;
  \<^item> \<open>RecordException s err message\<close>: \<^verbatim>\<open>s.recordException\<close> was given the result of
    \<^verbatim>\<open>utils.otelExceptionFromKnexError(err, message)\<close> (that helper is not in the
    sources, so the event keeps its two arguments);
  \<^item> \<open>SetStatusError s message\<close>: \<^verbatim>\<open>s.setStatus({code: ERROR, message})\<close>;
  \<^item> \<open>EndSpan s\<close>: \<^verbatim>\<open>s.end()\<close>.
\<close>

datatype event =
    StartSpan span string SpanKind "(string \<times> jsval) list" otel_context
  | Invoke otel_context jsval "jsval list"
  | RecordException span jsval string
  | SetStatusError span string
  | EndSpan span

fun is_start :: "event \<Rightarrow> bool" where
  "is_start (StartSpan s n k a p) = True"
| "is_start e = False"

fun is_end :: "event \<Rightarrow> bool" where
  "is_end (EndSpan s) = True"
| "is_end e = False"

section \<open>Objects and the store\<close>

text \<open>
  An object has data properties under string keys, possibly one property under the
  module's private \<^verbatim>\<open>contextSymbol\<close> (only this module can write it, so its value is a
  context), kept with its descriptor, and the extensible flag.
\<close>

record 'v descriptor =
  pvalue :: 'v
  writable :: bool
  enumerable :: bool
  configurable :: bool

record jsobj =
  properties :: "string \<rightharpoonup> jsval"
  contextSymbol :: "otel_context descriptor option"
  extensible :: bool

type_synonym heap = "addr \<Rightarrow> jsobj"

text \<open>
  A value that an exception carries: a value of the host, or a \<^verbatim>\<open>TypeError\<close> that the
  engine creates while it runs the module's own code.
\<close>

datatype exn = Raised jsval | TypeError

text \<open>
  \<open>lookup h v k\<close> is the property \<open>k\<close> of a value that is not nullish: primitives and
  arrays have none of the names this module reads. \<open>get\<close> is \<^verbatim>\<open>v.k\<close>, which throws on
  \<^verbatim>\<open>undefined\<close> and \<^verbatim>\<open>null\<close>; \<open>opt\<close> is \<^verbatim>\<open>v?.k\<close>.
\<close>

definition lookup :: "heap \<Rightarrow> jsval \<Rightarrow> string \<Rightarrow> jsval" where
  "lookup h v k =
     (case v of
        JRef a \<Rightarrow> (case properties (h a) k of None \<Rightarrow> JUndefined | Some x \<Rightarrow> x)
      | _ \<Rightarrow> JUndefined)"

definition get :: "heap \<Rightarrow> jsval \<Rightarrow> string \<Rightarrow> exn + jsval" where
  "get h v k = (if nullish v then Inl TypeError else Inr (lookup h v k))"

definition opt :: "heap \<Rightarrow> jsval \<Rightarrow> string \<Rightarrow> jsval" where
  "opt h v k = (if nullish v then JUndefined else lookup h v k)"

text \<open>\<^verbatim>\<open>v[contextSymbol]\<close>: the stored context, \<open>None\<close> for \<^verbatim>\<open>undefined\<close>.\<close>

definition get_context :: "heap \<Rightarrow> jsval \<Rightarrow> exn + otel_context option" where
  "get_context h v =
     (if nullish v then Inl TypeError
      else Inr (case v of
                  JRef a \<Rightarrow> map_option pvalue (contextSymbol (h a))
                | _ \<Rightarrow> None))"

text \<open>
  \<^verbatim>\<open>Object.defineProperty(v, contextSymbol, {value: c})\<close>. On a value that is not an
  object it throws. A new property gets the descriptor's defaults (not writable, not
  enumerable, not configurable) and needs an extensible object. An existing property
  that is neither configurable nor writable accepts only its own value again.
\<close>

definition defineProperty :: "heap \<Rightarrow> jsval \<Rightarrow> otel_context \<Rightarrow> exn + heap" where
  "defineProperty h v c =
     (case v of
        JRef a \<Rightarrow>
          (case contextSymbol (h a) of
             None \<Rightarrow>
               if extensible (h a)
               then Inr (h(a := (h a)\<lparr>contextSymbol :=
                               Some \<lparr>pvalue = c, writable = False,
                                     enumerable = False, configurable = False\<rparr>\<rparr>))
               else Inl TypeError
           | Some p \<Rightarrow>
               if \<not> configurable p \<and> \<not> writable p \<and> pvalue p \<noteq> c
               then Inl TypeError
               else Inr (h(a := (h a)\<lparr>contextSymbol := Some (p\<lparr>pvalue := c\<rparr>)\<rparr>)))
      | _ \<Rightarrow> Inl TypeError)"

section \<open>Context store\<close>

text \<open>
  A builder factory of the host takes \<^verbatim>\<open>this\<close>, its arguments and the store; it
  returns a value (\<open>Inr\<close>) or throws one (\<open>Inl\<close>), and leaves a store.
  \<^verbatim>\<open>storeContext(original)\<close> is the wrapped factory; \<open>active\<close> is what
  \<^verbatim>\<open>api.context.active()\<close> returns during the call.
\<close>

type_synonym factory = "jsval \<Rightarrow> jsval list \<Rightarrow> heap \<Rightarrow> (jsval + jsval) \<times> heap"

definition storeContext ::
  "factory \<Rightarrow> otel_context \<Rightarrow> jsval \<Rightarrow> jsval list \<Rightarrow> heap \<Rightarrow> (exn + jsval) \<times> heap" where
  "storeContext original active this arguments h =
     (case original this arguments h of
        (Inl e, h') \<Rightarrow> (Inl (Raised e), h')
      | (Inr builder, h') \<Rightarrow>
          (case defineProperty h' builder active of
             Inl e \<Rightarrow> (Inl e, h')
           | Inr h'' \<Rightarrow> (Inr builder, h'')))"

section \<open>Helpers of the module\<close>

text \<open>
  \<^verbatim>\<open>utils.ts\<close> is not in the sources. The helpers whose results the properties below
  do not depend on are parameters: \<^verbatim>\<open>extractTableName(builder)\<close>, \<^verbatim>\<open>mapSystem(client)\<close>,
  \<^verbatim>\<open>getName(name, operation, table)\<close>, and \<open>getFormatter d h this sql bindings\<close>, the
  string that the function returned by \<^verbatim>\<open>utils.getFormatter(this)\<close> makes of the SQL
  text and the bindings. They are taken to be pure and total.
  \<^verbatim>\<open>api.trace.isSpanContextValid(span.spanContext())\<close> of the tracing API is a parameter
  as well.
\<close>

record deps =
  extractTableName :: "heap \<Rightarrow> jsval \<Rightarrow> jsval"
  mapSystem :: "jsval \<Rightarrow> jsval"
  getName :: "jsval \<Rightarrow> jsval \<Rightarrow> jsval \<Rightarrow> string"
  getFormatter :: "heap \<Rightarrow> jsval \<Rightarrow> jsval \<Rightarrow> jsval \<Rightarrow> string"
  isSpanContextValid :: "span \<Rightarrow> bool"

text \<open>
  Modelled from the spec: \<^verbatim>\<open>utils.limitLength(str, maxLength)\<close> is not in the sources.
  The specification (4.4) makes the statement attribute the raw SQL text truncated to the
  configured length, counting characters. It names no other case, so anything but a
  string with a positive length is passed through.
\<close>

definition limitLength :: "jsval \<Rightarrow> jsval \<Rightarrow> jsval" where
  "limitLength str maxLength =
     (case (str, maxLength) of
        (JStr s, JNum n) \<Rightarrow> if 0 < n then JStr (take (nat n) s) else str
      | _ \<Rightarrow> str)"

text \<open>
  \<^verbatim>\<open>s.replace(pattern, '')\<close> with a string pattern: the first occurrence of the pattern
  is removed, wherever it is; without an occurrence the string is returned as it is.
\<close>

fun starts_with :: "string \<Rightarrow> string \<Rightarrow> bool" where
  "starts_with [] s = True"
| "starts_with (p # ps) [] = False"
| "starts_with (p # ps) (c # cs) = (p = c \<and> starts_with ps cs)"

fun replace_first :: "string \<Rightarrow> string \<Rightarrow> string" where
  "replace_first pat [] = []"
| "replace_first pat (c # cs) =
     (if starts_with pat (c # cs) then drop (length pat) (c # cs)
      else c # replace_first pat cs)"

text \<open>The attribute names of the semantic conventions package.\<close>

definition SEMATTRS_DB_SYSTEM :: string where "SEMATTRS_DB_SYSTEM = ''db.system''"
definition SEMATTRS_DB_SQL_TABLE :: string where "SEMATTRS_DB_SQL_TABLE = ''db.sql.table''"
definition SEMATTRS_DB_OPERATION :: string where "SEMATTRS_DB_OPERATION = ''db.operation''"
definition SEMATTRS_DB_USER :: string where "SEMATTRS_DB_USER = ''db.user''"
definition SEMATTRS_DB_NAME :: string where "SEMATTRS_DB_NAME = ''db.name''"
definition SEMATTRS_NET_PEER_NAME :: string where "SEMATTRS_NET_PEER_NAME = ''net.peer.name''"
definition SEMATTRS_NET_PEER_PORT :: string where "SEMATTRS_NET_PEER_PORT = ''net.peer.port''"
definition SEMATTRS_NET_TRANSPORT :: string where "SEMATTRS_NET_TRANSPORT = ''net.transport''"
definition SEMATTRS_DB_STATEMENT :: string where "SEMATTRS_DB_STATEMENT = ''db.statement''"

text \<open>
  An attribute object is the list of its own keys with their values, in insertion order;
  \<^verbatim>\<open>attributes[k] = v\<close> overwrites the key or adds it at the end.
\<close>

type_synonym attributes = "(string \<times> jsval) list"

fun assign :: "string \<Rightarrow> jsval \<Rightarrow> attributes \<Rightarrow> attributes" where
  "assign k v [] = [(k, v)]"
| "assign k v ((k', v') # kvs) =
     (if k = k' then (k, v) # kvs else (k', v') # assign k v kvs)"

text \<open>
  Modelled from the spec: what a span keeps of the attribute object is the tracer's
  business and not in the sources. The tracing API types an attribute value as a value
  or \<^verbatim>\<open>undefined\<close>, for an attribute that is not set, and the specification (3) has
  absent values omitted from the emitted attribute set, never sent as \<^verbatim>\<open>null\<close>. The
  emitted attribute set is therefore the object's keys whose values are neither
  \<^verbatim>\<open>undefined\<close> nor \<^verbatim>\<open>null\<close>, with these values.
\<close>

definition emitted :: "attributes \<Rightarrow> string \<rightharpoonup> jsval" where
  "emitted attrs k =
     (case map_of attrs k of
        None \<Rightarrow> None
      | Some v \<Rightarrow> if nullish v then None else Some v)"

section \<open>Query span manager\<close>

text \<open>
  The host's execution method returns a promise or throws. Its completion is a value
  thrown synchronously, or a promise that is fulfilled or rejected (a promise that never
  settles runs no handler and is not modelled). The original method works on the store
  and does not talk to the tracer.
\<close>

datatype 'e completion = Thrown 'e | Fulfilled jsval | Rejected 'e

type_synonym original = "otel_context \<Rightarrow> jsval \<Rightarrow> jsval list \<Rightarrow> heap \<Rightarrow> jsval completion \<times> heap"

text \<open>The formal parameter \<^verbatim>\<open>query\<close>: the first argument, \<^verbatim>\<open>undefined\<close> without one.\<close>

definition query_of :: "jsval list \<Rightarrow> jsval" where
  "query_of arguments = (case arguments of [] \<Rightarrow> JUndefined | q # rest \<Rightarrow> q)"

text \<open>
  Lines 127 to 161 of the source: everything \<^verbatim>\<open>wrapped_logging_method\<close> computes
  before it decides whether to trace. \<open>active\<close> is \<^verbatim>\<open>api.context.active()\<close>.
\<close>

record prepared =
  span_name :: string
  span_attributes :: attributes
  parentContext :: otel_context
  hasActiveParent :: bool

definition prepare ::
  "deps \<Rightarrow> instrumentation \<Rightarrow> jsval \<Rightarrow> otel_context \<Rightarrow> heap \<Rightarrow> jsval \<Rightarrow> jsval
     \<Rightarrow> exn + prepared" where
  "prepare d inst moduleVersion active h this query =
     (case get h this ''client'' of Inl e \<Rightarrow> Inl e | Inr client \<Rightarrow>
      case get h client ''config'' of Inl e \<Rightarrow> Inl e | Inr config \<Rightarrow>
      case get h this ''builder'' of Inl e \<Rightarrow> Inl e | Inr builder \<Rightarrow>
      let table = extractTableName d h builder;
          operation = opt h query ''method'';
          connection = opt h config ''connection'';
          name = js_or (opt h connection ''filename'') (opt h connection ''database'');
          maxQueryLength = read (getConfig inst) ''maxQueryLength''
      in
      case get h config ''client'' of Inl e \<Rightarrow> Inl e | Inr client_id \<Rightarrow>
      let attributes0 =
            [(''knex.version'', moduleVersion),
             (SEMATTRS_DB_SYSTEM, mapSystem d client_id),
             (SEMATTRS_DB_SQL_TABLE, table),
             (SEMATTRS_DB_OPERATION, operation),
             (SEMATTRS_DB_USER, opt h connection ''user''),
             (SEMATTRS_DB_NAME, name),
             (SEMATTRS_NET_PEER_NAME, opt h connection ''host''),
             (SEMATTRS_NET_PEER_PORT, opt h connection ''port''),
             (SEMATTRS_NET_TRANSPORT,
                if opt h connection ''filename'' = JStr '':memory:''
                then JStr ''inproc'' else JUndefined)];
          attributes =
            (if truthy maxQueryLength
             then assign SEMATTRS_DB_STATEMENT
                    (limitLength (opt h query ''sql'') maxQueryLength) attributes0
             else attributes0)
      in
      case get_context h builder of Inl e \<Rightarrow> Inl e | Inr stored \<Rightarrow>
      let parent = (case stored of Some c \<Rightarrow> c | None \<Rightarrow> active);
          parentSpan = getSpan parent
      in Inr \<lparr>span_name = getName d name operation table,
              span_attributes = attributes,
              parentContext = parent,
              hasActiveParent =
                (case parentSpan of None \<Rightarrow> False | Some s \<Rightarrow> isSpanContextValid d s)\<rparr>)"

text \<open>
  Line 162: the call is passed through untraced when a parent span is required and the
  resolved context has no valid one.
\<close>

definition bypasses :: "instrumentation \<Rightarrow> prepared \<Rightarrow> bool" where
  "bypasses inst p =
     (truthy (read (config_of inst) ''requireParentSpan'') \<and> \<not> hasActiveParent p)"

text \<open>
  The rejection handler (lines 182 to 193), run on the store the original left. A
  \<^verbatim>\<open>TypeError\<close> inside it rejects the promise that the wrapper returned; nothing after
  the failing step runs.
\<close>

definition on_rejected ::
  "deps \<Rightarrow> heap \<Rightarrow> jsval \<Rightarrow> jsval \<Rightarrow> span \<Rightarrow> jsval \<Rightarrow> exn completion \<times> event list" where
  "on_rejected d h this query s err =
     (case get h query ''sql'' of Inl e \<Rightarrow> (Rejected e, []) | Inr sql \<Rightarrow>
      case get h query ''bindings'' of Inl e \<Rightarrow> (Rejected e, []) | Inr bindings \<Rightarrow>
      let fullQuery = getFormatter d h this sql (js_or bindings (JArr [])) in
      case get h err ''message'' of Inl e \<Rightarrow> (Rejected e, []) | Inr m \<Rightarrow>
      (case m of
         JStr msg \<Rightarrow>
           let message = replace_first (fullQuery @ '' - '') msg
           in (Rejected (Raised err),
               [RecordException s err message, SetStatusError s message, EndSpan s])
       | _ \<Rightarrow> (Rejected TypeError, [])))"

text \<open>
  \<^verbatim>\<open>createQueryWrapper(moduleVersion)(original)\<close>: the wrapped execution method. \<open>s\<close> is
  the span that \<^verbatim>\<open>tracer.startSpan\<close> returns when it is called. The result is the
  completion the caller sees, the store, and the events of the call in order.
\<close>

definition createQueryWrapper ::
  "deps \<Rightarrow> instrumentation \<Rightarrow> jsval \<Rightarrow> original \<Rightarrow> span \<Rightarrow> otel_context \<Rightarrow> jsval
     \<Rightarrow> jsval list \<Rightarrow> heap \<Rightarrow> exn completion \<times> heap \<times> event list" where
  "createQueryWrapper d inst moduleVersion original s active this arguments h =
     (let query = query_of arguments in
      case prepare d inst moduleVersion active h this query of
        Inl e \<Rightarrow> (Thrown e, h, [])
      | Inr p \<Rightarrow>
          if bypasses inst p
          then
            (case original active this arguments h of
               (c, h') \<Rightarrow> (map_completion Raised c, h', [Invoke active this arguments]))
          else
            let started = StartSpan s (span_name p) CLIENT (span_attributes p) (parentContext p);
                spanContext = setSpan active s
            in
            (case original spanContext this arguments h of
               (Thrown e, h') \<Rightarrow>
                 (Thrown (Raised e), h', [started, Invoke spanContext this arguments])
             | (Fulfilled result, h') \<Rightarrow>
                 (Fulfilled result, h', [started, Invoke spanContext this arguments, EndSpan s])
             | (Rejected err, h') \<Rightarrow>
                 (case on_rejected d h' this query s err of
                    (c, evs) \<Rightarrow>
                      (c, h', [started, Invoke spanContext this arguments] @ evs))))"

text \<open>
  Names for two expressions of the source, on a query descriptor and a runner that are
  not nullish: the interpolated SQL that the rejection handler rebuilds
  (\<^verbatim>\<open>formatter(query.sql, query.bindings || [])\<close>), and \<^verbatim>\<open>config?.connection\<close>
  for the \<^verbatim>\<open>config\<close> of the runner's client.
\<close>

definition fullQuery :: "deps \<Rightarrow> heap \<Rightarrow> jsval \<Rightarrow> jsval \<Rightarrow> string" where
  "fullQuery d h this query =
     getFormatter d h this (lookup h query ''sql'')
       (js_or (lookup h query ''bindings'') (JArr []))"

definition connection_of :: "heap \<Rightarrow> jsval \<Rightarrow> jsval" where
  "connection_of h this = opt h (lookup h (lookup h this ''client'') ''config'') ''connection''"

text \<open>
  The object literal of lines 137 to 148, written with the lookups it makes, for a runner
  whose client has a configuration.
\<close>

definition literal :: "deps \<Rightarrow> jsval \<Rightarrow> heap \<Rightarrow> jsval \<Rightarrow> jsval \<Rightarrow> attributes" where
  "literal d moduleVersion h this query =
     [(''knex.version'', moduleVersion),
      (SEMATTRS_DB_SYSTEM,
         mapSystem d (lookup h (lookup h (lookup h this ''client'') ''config'') ''client'')),
      (SEMATTRS_DB_SQL_TABLE, extractTableName d h (lookup h this ''builder'')),
      (SEMATTRS_DB_OPERATION, opt h query ''method''),
      (SEMATTRS_DB_USER, opt h (connection_of h this) ''user''),
      (SEMATTRS_DB_NAME,
         js_or (opt h (connection_of h this) ''filename'')
               (opt h (connection_of h this) ''database'')),
      (SEMATTRS_NET_PEER_NAME, opt h (connection_of h this) ''host''),
      (SEMATTRS_NET_PEER_PORT, opt h (connection_of h this) ''port''),
      (SEMATTRS_NET_TRANSPORT,
         if opt h (connection_of h this) ''filename'' = JStr '':memory:''
         then JStr ''inproc'' else JUndefined)]"

text \<open>Selectors of the call's result, and of a started span's attributes.\<close>

definition outcome :: "exn completion \<times> heap \<times> event list \<Rightarrow> exn completion" where
  "outcome r = fst r"

definition events :: "exn completion \<times> heap \<times> event list \<Rightarrow> event list" where
  "events r = snd (snd r)"

fun attributes_of :: "event \<Rightarrow> attributes" where
  "attributes_of (StartSpan s n k a p) = a"
| "attributes_of e = []"

section \<open>A concrete host\<close>

text \<open>
  A small store for the examples: a runner (0) with its client (1) and builder (2), the
  client's configuration (3) for sqlite3 with a connection (4) to the file
  \<^verbatim>\<open>test.db\<close>, a query descriptor (5), an error (6) whose message the host has
  prefixed with the interpolated SQL, and an object (7) that has a code but no message.
\<close>

definition plain_object :: "(string \<times> jsval) list \<Rightarrow> jsobj" where
  "plain_object kvs = \<lparr>properties = map_of kvs, contextSymbol = None, extensible = True\<rparr>"

definition example_heap :: heap where
  "example_heap =
     (\<lambda>a. plain_object [])
       (0 := plain_object [(''client'', JRef 1), (''builder'', JRef 2)],
        1 := plain_object [(''config'', JRef 3)],
        3 := plain_object [(''client'', JStr ''sqlite3''), (''connection'', JRef 4)],
        4 := plain_object [(''filename'', JStr ''test.db'')],
        5 := plain_object [(''sql'', JStr ''select ?''), (''method'', JStr ''select''),
                           (''bindings'', JArr [JNum 7])],
        6 := plain_object [(''message'', JStr ''select 7 - no such table'')],
        7 := plain_object [(''code'', JStr ''SQLITE_BUSY'')])"

definition example_deps :: deps where
  "example_deps =
     \<lparr>extractTableName = (\<lambda>h builder. JUndefined),
      mapSystem = (\<lambda>client. if client = JStr ''sqlite3'' then JStr ''sqlite'' else client),
      getName = (\<lambda>name operation table. ''knex.client.runner''),
      getFormatter = (\<lambda>h this sql bindings. ''select 7''),
      isSpanContextValid = (\<lambda>s. True)\<rparr>"

text \<open>
  What lines 127 to 161 compute on that store for the query descriptor, without an
  ambient span, when the statement attribute gets the value \<open>statement\<close>.
\<close>

definition example_prepared :: "jsval \<Rightarrow> prepared" where
  "example_prepared statement =
     \<lparr>span_name = ''knex.client.runner'',
      span_attributes =
        [(''knex.version'', JStr ''1.0.0''), (''db.system'', JStr ''sqlite''),
         (''db.sql.table'', JUndefined), (''db.operation'', JStr ''select''),
         (''db.user'', JUndefined), (''db.name'', JStr ''test.db''),
         (''net.peer.name'', JUndefined), (''net.peer.port'', JUndefined),
         (''net.transport'', JUndefined), (''db.statement'', statement)],
      parentContext = Context 0 None,
      hasActiveParent = False\<rparr>"

text \<open>Instrumentations with one option set by the caller.\<close>

definition configured :: "string \<Rightarrow> jsval \<Rightarrow> instrumentation" where
  "configured k v = constructor (Some [k \<mapsto> v])"

definition rejecting :: "jsval \<Rightarrow> original" where
  "rejecting err = (\<lambda>c this arguments h. (Rejected err, h))"

definition fulfilling :: "jsval \<Rightarrow> original" where
  "fulfilling result = (\<lambda>c this arguments h. (Fulfilled result, h))"

text \<open>A factory that returns the object at address \<open>a\<close>, and one that throws.\<close>

definition returning :: "addr \<Rightarrow> factory" where
  "returning a = (\<lambda>this arguments h. (Inr (JRef a), h))"

definition throwing :: "jsval \<Rightarrow> factory" where
  "throwing e = (\<lambda>this arguments h. (Inl e, h))"

section \<open>Properties of the configuration\<close>

lemma reconfigure_last:
  "as \<noteq> [] \<Longrightarrow>
   config_of (reconfigure inst as) = spread DEFAULT_CONFIG (argument (last as))"
proof (induction as arbitrary: inst)
  case Nil
  then show ?case by simp
next
  case (Cons a as)
  show ?case
  proof (cases "as = []")
    case True
    then show ?thesis by (simp add: setConfig_def)
  next
    case False
    then show ?thesis using Cons.IH [OF False, of "setConfig inst a"] by simp
  qed
qed

lemma effective_config:
  "config_of (reconfigure (constructor a) as) =
     spread DEFAULT_CONFIG (argument (last (a # as)))"
  by (cases "as = []") (simp_all add: reconfigure_last constructor_def)

text \<open>
  C7, as the code has it. After the constructor and any sequence of reconfigurations,
  the effective configuration is the last options object the caller passed, spread over
  the defaults. Each recognized key is present; it reads as the caller's value when that
  object has the key (also when the value is \<^verbatim>\<open>undefined\<close>) and as the default
  otherwise; so it reads as a defined value unless the caller passed \<^verbatim>\<open>undefined\<close>
  under that very key.
\<close>

theorem config_merged_over_defaults:
  "config_of (reconfigure (constructor a) as) =
     spread DEFAULT_CONFIG (argument (last (a # as))) \<and>
   (\<forall>k \<in> recognized.
      getConfig (reconfigure (constructor a) as) k \<noteq> None \<and>
      read (getConfig (reconfigure (constructor a) as)) k =
        (case argument (last (a # as)) k of
           Some v \<Rightarrow> v
         | None \<Rightarrow> read DEFAULT_CONFIG k) \<and>
      (argument (last (a # as)) k \<noteq> Some JUndefined \<longrightarrow>
         read (getConfig (reconfigure (constructor a) as)) k \<noteq> JUndefined))"
proof (intro conjI ballI)
  show e: "config_of (reconfigure (constructor a) as) =
             spread DEFAULT_CONFIG (argument (last (a # as)))"
    by (rule effective_config)
  fix k assume k: "k \<in> recognized"
  let ?c = "argument (last (a # as))"
  have d: "DEFAULT_CONFIG k \<noteq> None \<and> read DEFAULT_CONFIG k \<noteq> JUndefined"
    using k by (auto simp: recognized_def DEFAULT_CONFIG_def read_def)
  have g: "getConfig (reconfigure (constructor a) as) k =
             (case ?c k of Some v \<Rightarrow> Some v | None \<Rightarrow> DEFAULT_CONFIG k)"
    unfolding getConfig_def e by (simp add: spread_def map_add_def)
  show "getConfig (reconfigure (constructor a) as) k \<noteq> None"
    using d unfolding g by (simp split: option.splits)
  show r: "read (getConfig (reconfigure (constructor a) as)) k =
             (case ?c k of Some v \<Rightarrow> v | None \<Rightarrow> read DEFAULT_CONFIG k)"
    unfolding read_def g by (simp split: option.splits)
  show "?c k \<noteq> Some JUndefined \<longrightarrow>
          read (getConfig (reconfigure (constructor a) as)) k \<noteq> JUndefined"
    using d unfolding r by (simp split: option.splits)
qed

theorem config_merged_over_defaults_witness:
  "''maxQueryLength'' \<in> recognized \<and>
   argument (last [None, Some [''maxQueryLength'' \<mapsto> JNum 0],
                   Some [''requireParentSpan'' \<mapsto> JBool True]]) ''maxQueryLength''
     \<noteq> Some JUndefined \<and>
   read (getConfig (reconfigure (constructor None)
           [Some [''maxQueryLength'' \<mapsto> JNum 0], Some [''requireParentSpan'' \<mapsto> JBool True]]))
        ''maxQueryLength'' = JNum 1022 \<and>
   read (getConfig (reconfigure (constructor None)
           [Some [''maxQueryLength'' \<mapsto> JNum 0], Some [''requireParentSpan'' \<mapsto> JBool True]]))
        ''requireParentSpan'' = JBool True"
proof -
  have k: "''maxQueryLength'' \<in> recognized" "''requireParentSpan'' \<in> recognized"
    by (simp_all add: recognized_def)
  have a: "argument (last [None, Some [''maxQueryLength'' \<mapsto> JNum 0],
                           Some [''requireParentSpan'' \<mapsto> JBool True]]) =
           [''requireParentSpan'' \<mapsto> JBool True]"
    by (simp add: argument_def)
  note applied = config_merged_over_defaults
         [where a = None
            and as = "[Some [''maxQueryLength'' \<mapsto> JNum 0],
                       Some [''requireParentSpan'' \<mapsto> JBool True]]",
          THEN conjunct2, THEN bspec]
  from applied [OF k(1)] applied [OF k(2)]
  show ?thesis using k(1) unfolding a by (simp add: read_def DEFAULT_CONFIG_def)
qed

text \<open>
  As the specification states it, C7 fails:
  \<^verbatim>\<open>setConfig({maxQueryLength: undefined})\<close> leaves a
  recognized option without a defined value, the spread having copied the key.
\<close>

theorem config_undefined_counterexample:
  "''maxQueryLength'' \<in> recognized \<and>
   read (getConfig (setConfig (constructor None) (Some [''maxQueryLength'' \<mapsto> JUndefined])))
     ''maxQueryLength'' = JUndefined"
  by (simp add: recognized_def setConfig_def constructor_def getConfig_def spread_def read_def
                argument_def DEFAULT_CONFIG_def)

section \<open>Properties of the interceptor\<close>

lemma ensureWrapped_Some:
  "obj n = Some m \<Longrightarrow>
   ensureWrapped obj n w = Some (obj(n \<mapsto> Shim (w (restored m)) (restored m)))"
  by (cases m) (simp_all add: ensureWrapped_def isWrapped_def unwrap_def wrap_def)

lemma unwrap_Some: "obj n = Some m \<Longrightarrow> unwrap obj n = obj(n \<mapsto> restored m)"
  by (cases m) (simp_all add: unwrap_def map_upd_triv)

lemma ensureWrapped_all_Some:
  "obj n = Some m \<Longrightarrow>
   \<exists>obj'. ensureWrapped_all obj n ws = Some obj' \<and>
     obj' = (if ws = [] then obj else obj(n \<mapsto> Shim (last ws (restored m)) (restored m)))"
proof (induction ws arbitrary: obj m)
  case Nil
  then show ?case by simp
next
  case (Cons w ws)
  let ?o = "obj(n \<mapsto> Shim (w (restored m)) (restored m))"
  have e: "ensureWrapped obj n w = Some ?o" using Cons.prems by (rule ensureWrapped_Some)
  have s: "?o n = Some (Shim (w (restored m)) (restored m))" by simp
  have "\<exists>obj'. ensureWrapped_all ?o n ws = Some obj' \<and>
     obj' = (if ws = [] then ?o
             else ?o(n \<mapsto> Shim (last ws (restored (Shim (w (restored m)) (restored m))))
                                  (restored (Shim (w (restored m)) (restored m)))))"
    using s by (rule Cons.IH)
  then show ?case using e by auto
qed

lemma ensureWrapped_then_unwrap_present:
  assumes "obj methodName = Some m"
  shows "\<exists>obj'. ensureWrapped_all obj methodName ws = Some obj' \<and>
           unwrap obj' methodName = unwrap obj methodName \<and>
           (\<not> isWrapped (obj methodName) \<longrightarrow> unwrap obj' methodName = obj) \<and>
           (ws \<noteq> [] \<longrightarrow>
              obj' methodName = Some (Shim (last ws (restored m)) (restored m)))"
proof -
  have "\<exists>obj'. ensureWrapped_all obj methodName ws = Some obj' \<and>
     obj' = (if ws = [] then obj
             else obj(methodName \<mapsto> Shim (last ws (restored m)) (restored m)))"
    using assms by (rule ensureWrapped_all_Some)
  then obtain obj' where
    a: "ensureWrapped_all obj methodName ws = Some obj'" and
    b: "obj' = (if ws = [] then obj
                else obj(methodName \<mapsto> Shim (last ws (restored m)) (restored m)))"
    by blast
  have u: "unwrap obj' methodName = unwrap obj methodName"
  proof (cases "ws = []")
    case True
    then show ?thesis using b by simp
  next
    case False
    then have "unwrap obj' methodName = obj(methodName \<mapsto> restored m)"
      using b by (simp add: unwrap_def)
    then show ?thesis using assms by (simp add: unwrap_Some)
  qed
  have p: "\<not> isWrapped (obj methodName) \<Longrightarrow> unwrap obj methodName = obj"
    using assms by (cases m) (simp_all add: isWrapped_def unwrap_def)
  show ?thesis using a b u p by auto
qed

text \<open>
  C8. Where the method exists, any number of \<^verbatim>\<open>ensureWrapped\<close> calls succeed, and one
  \<^verbatim>\<open>_unwrap\<close> afterwards leaves what one \<^verbatim>\<open>_unwrap\<close> of the starting object leaves:
  the starting object itself when its method did not carry the marker. After at least
  one call the installed method is a single wrapper around the restored method (the last
  wrapper applied to it), never a wrapper around a wrapper of this module. Where the
  method is absent, \<^verbatim>\<open>ensureWrapped\<close> fails and nothing is installed.
\<close>

theorem ensureWrapped_then_unwrap:
  "(obj methodName = Some m \<longrightarrow>
      (\<exists>obj'. ensureWrapped_all obj methodName ws = Some obj' \<and>
         unwrap obj' methodName = unwrap obj methodName \<and>
         (\<not> isWrapped (obj methodName) \<longrightarrow> unwrap obj' methodName = obj) \<and>
         (ws \<noteq> [] \<longrightarrow>
            obj' methodName = Some (Shim (last ws (restored m)) (restored m))))) \<and>
   (obj methodName = None \<longrightarrow>
      ensureWrapped obj methodName w = None \<and> unwrap obj methodName = obj)"
proof (intro conjI impI)
  assume "obj methodName = Some m"
  then show "\<exists>obj'. ensureWrapped_all obj methodName ws = Some obj' \<and>
         unwrap obj' methodName = unwrap obj methodName \<and>
         (\<not> isWrapped (obj methodName) \<longrightarrow> unwrap obj' methodName = obj) \<and>
         (ws \<noteq> [] \<longrightarrow>
            obj' methodName = Some (Shim (last ws (restored m)) (restored m)))"
    by (rule ensureWrapped_then_unwrap_present)
next
  assume n: "obj methodName = None"
  then show "ensureWrapped obj methodName w = None"
    by (simp add: ensureWrapped_def isWrapped_def wrap_def)
  show "unwrap obj methodName = obj" using n by (simp add: unwrap_def)
qed

theorem ensureWrapped_then_unwrap_witness:
  "[''query'' \<mapsto> Plain (0::nat)] ''query'' = Some (Plain 0) \<and>
   \<not> isWrapped ([''query'' \<mapsto> Plain (0::nat)] ''query'') \<and>
   (\<exists>obj'. ensureWrapped_all [''query'' \<mapsto> Plain (0::nat)] ''query''
              [\<lambda>orig. 1, \<lambda>orig. 2] = Some obj' \<and>
           unwrap obj' ''query'' = [''query'' \<mapsto> Plain 0] \<and>
           obj' ''query'' = Some (Shim 2 (Plain 0))) \<and>
   [''query'' \<mapsto> Plain (0::nat)] ''raw'' = None \<and>
   ensureWrapped [''query'' \<mapsto> Plain (0::nat)] ''raw'' (\<lambda>orig. 1) = None \<and>
   unwrap [''query'' \<mapsto> Plain (0::nat)] ''raw'' = [''query'' \<mapsto> Plain 0]"
proof -
  have h: "[''query'' \<mapsto> Plain (0::nat)] ''query'' = Some (Plain 0)" by simp
  have n: "\<not> isWrapped ([''query'' \<mapsto> Plain (0::nat)] ''query'')"
    by (simp add: isWrapped_def)
  have a: "[''query'' \<mapsto> Plain (0::nat)] ''raw'' = None" by simp
  note present = ensureWrapped_then_unwrap
         [where obj = "[''query'' \<mapsto> Plain (0::nat)]" and methodName = "''query''"
            and m = "Plain 0" and ws = "[\<lambda>orig. 1, \<lambda>orig. 2]",
          THEN conjunct1, rule_format, OF h]
  note absent = ensureWrapped_then_unwrap
         [where obj = "[''query'' \<mapsto> Plain (0::nat)]" and methodName = "''raw''"
            and w = "\<lambda>orig. 1",
          THEN conjunct2, rule_format, OF a]
  from present n absent show ?thesis using h a by auto
qed

section \<open>Properties of the query span manager\<close>

subsection \<open>The handler and the three ways through the wrapper\<close>

lemma starts_with_append: "starts_with pat (pat @ rest)"
  by (induction pat) simp_all

lemma replace_first_prefix: "pat \<noteq> [] \<Longrightarrow> replace_first pat (pat @ rest) = rest"
  by (cases pat) (simp_all add: starts_with_append)

lemma get_nullish: "nullish v \<Longrightarrow> get h v k = Inl TypeError"
  by (simp add: get_def)

lemma get_object: "\<not> nullish v \<Longrightarrow> get h v k = Inr (lookup h v k)"
  by (simp add: get_def)

lemma get_Inr: "get h v k = Inr x \<Longrightarrow> x = lookup h v k"
  by (simp add: get_def split: if_splits)

lemma on_rejected_nullish:
  "nullish query \<Longrightarrow> on_rejected d h this query s err = (Rejected TypeError, [])"
  by (simp add: on_rejected_def get_nullish)

lemma on_rejected_message:
  assumes "\<not> nullish query" and "get h err ''message'' = Inr (JStr m)"
  shows "on_rejected d h this query s err =
           (Rejected (Raised err),
            [RecordException s err (replace_first (fullQuery d h this query @ '' - '') m),
             SetStatusError s (replace_first (fullQuery d h this query @ '' - '') m),
             EndSpan s])"
  using assms by (simp add: on_rejected_def get_object Let_def fullQuery_def)

lemma on_rejected_no_message:
  assumes "\<forall>m. get h err ''message'' \<noteq> Inr (JStr m)"
  shows "on_rejected d h this query s err = (Rejected TypeError, [])"
proof (cases "nullish query")
  case True
  then show ?thesis by (rule on_rejected_nullish)
next
  case False
  show ?thesis
  proof (cases "get h err ''message''")
    case (Inl e)
    then have "e = TypeError" by (auto simp: get_def split: if_splits)
    then show ?thesis using False Inl by (simp add: on_rejected_def get_object Let_def)
  next
    case (Inr v)
    then have "\<forall>m. v \<noteq> JStr m" using assms by auto
    then show ?thesis using False Inr
      by (cases v) (simp_all add: on_rejected_def get_object Let_def)
  qed
qed

lemma on_rejected_no_start:
  "e \<in> set (snd (on_rejected d h this query s err)) \<Longrightarrow> \<not> is_start e"
  by (auto simp: on_rejected_def Let_def split: sum.splits jsval.splits)

lemma wrapper_throws:
  "prepare d inst ver active h this (query_of args) = Inl e \<Longrightarrow>
   createQueryWrapper d inst ver original s active this args h = (Thrown e, h, [])"
  by (simp add: createQueryWrapper_def)

lemma wrapper_bypass:
  assumes "prepare d inst ver active h this (query_of args) = Inr p"
      and "bypasses inst p"
  shows "createQueryWrapper d inst ver original s active this args h =
           (map_completion Raised (fst (original active this args h)),
            snd (original active this args h),
            [Invoke active this args])"
  using assms by (simp add: createQueryWrapper_def split: prod.splits)

lemma wrapper_traced:
  assumes "prepare d inst ver active h this (query_of args) = Inr p"
      and "\<not> bypasses inst p"
      and "original (setSpan active s) this args h = (c, h')"
  shows "createQueryWrapper d inst ver original s active this args h =
           (case c of
              Thrown e \<Rightarrow> Thrown (Raised e)
            | Fulfilled v \<Rightarrow> Fulfilled v
            | Rejected err \<Rightarrow> fst (on_rejected d h' this (query_of args) s err),
            h',
            [StartSpan s (span_name p) CLIENT (span_attributes p) (parentContext p),
             Invoke (setSpan active s) this args] @
            (case c of
               Thrown e \<Rightarrow> []
             | Fulfilled v \<Rightarrow> [EndSpan s]
             | Rejected err \<Rightarrow> snd (on_rejected d h' this (query_of args) s err)))"
  using assms
  by (cases c) (auto simp: createQueryWrapper_def Let_def split: prod.splits)

text \<open>A span is started only by the traced path, with what lines 127 to 161 prepared.\<close>

lemma started_span:
  assumes "StartSpan s' nm k attrs par \<in>
             set (events (createQueryWrapper d inst ver original s active this args h))"
  shows "\<exists>p. prepare d inst ver active h this (query_of args) = Inr p \<and>
           s' = s \<and> nm = span_name p \<and> k = CLIENT \<and> attrs = span_attributes p \<and>
           par = parentContext p"
proof (cases "prepare d inst ver active h this (query_of args)")
  case (Inl e)
  then show ?thesis using assms by (simp add: wrapper_throws events_def)
next
  case (Inr p)
  show ?thesis
  proof (cases "bypasses inst p")
    case True
    then show ?thesis using assms Inr by (simp add: wrapper_bypass events_def)
  next
    case False
    obtain c h' where o: "original (setSpan active s) this args h = (c, h')"
      by (cases "original (setSpan active s) this args h")
    have "\<not> is_start (StartSpan s' nm k attrs par)"
      if "StartSpan s' nm k attrs par \<in> set (snd (on_rejected d h' this (query_of args) s err))"
      for err using that by (rule on_rejected_no_start)
    then show ?thesis using assms Inr
      by (cases c)
         (auto simp: wrapper_traced [where original = original, OF Inr False o] events_def)
  qed
qed

subsection \<open>What is prepared\<close>

lemma map_of_assign_same: "map_of (assign k v kvs) k = Some v"
  by (induction kvs) auto

lemma map_of_assign_other: "k' \<noteq> k \<Longrightarrow> map_of (assign k v kvs) k' = map_of kvs k'"
  by (induction kvs) auto

lemmas attr_names =
  SEMATTRS_DB_SYSTEM_def SEMATTRS_DB_SQL_TABLE_def SEMATTRS_DB_OPERATION_def
  SEMATTRS_DB_USER_def SEMATTRS_DB_NAME_def SEMATTRS_NET_PEER_NAME_def
  SEMATTRS_NET_PEER_PORT_def SEMATTRS_NET_TRANSPORT_def SEMATTRS_DB_STATEMENT_def

lemma prepare_Inr:
  assumes "prepare d inst ver active h this q = Inr p"
  shows "span_attributes p =
           (if truthy (read (getConfig inst) ''maxQueryLength'')
            then assign SEMATTRS_DB_STATEMENT
                   (limitLength (opt h q ''sql'') (read (getConfig inst) ''maxQueryLength''))
                   (literal d ver h this q)
            else literal d ver h this q) \<and>
         (\<exists>stored. get_context h (lookup h this ''builder'') = Inr stored \<and>
            parentContext p = (case stored of Some c \<Rightarrow> c | None \<Rightarrow> active))"
proof -
  from assms obtain client config builder cid stored where
    c: "get h this ''client'' = Inr client" and
    f: "get h client ''config'' = Inr config" and
    b: "get h this ''builder'' = Inr builder" and
    i: "get h config ''client'' = Inr cid" and
    x: "get_context h builder = Inr stored"
    unfolding prepare_def Let_def by (simp split: sum.splits)
  have c': "client = lookup h this ''client''" using c by (rule get_Inr)
  have f': "config = lookup h client ''config''" using f by (rule get_Inr)
  have b': "builder = lookup h this ''builder''" using b by (rule get_Inr)
  have i': "cid = lookup h config ''client''" using i by (rule get_Inr)
  have "p = \<lparr>span_name =
                getName d (js_or (opt h (connection_of h this) ''filename'')
                                 (opt h (connection_of h this) ''database''))
                  (opt h q ''method'') (extractTableName d h (lookup h this ''builder'')),
              span_attributes =
                (if truthy (read (getConfig inst) ''maxQueryLength'')
                 then assign SEMATTRS_DB_STATEMENT
                        (limitLength (opt h q ''sql'')
                           (read (getConfig inst) ''maxQueryLength''))
                        (literal d ver h this q)
                 else literal d ver h this q),
              parentContext = (case stored of Some c \<Rightarrow> c | None \<Rightarrow> active),
              hasActiveParent =
                (case getSpan (case stored of Some c \<Rightarrow> c | None \<Rightarrow> active) of
                   None \<Rightarrow> False
                 | Some s \<Rightarrow> isSpanContextValid d s)\<rparr>"
    using assms unfolding prepare_def Let_def c f b i x sum.case
    unfolding literal_def connection_of_def c' f' b' i' by simp
  then show ?thesis using x b' by simp
qed

lemma literal_statement: "map_of (literal d ver h this q) SEMATTRS_DB_STATEMENT = None"
  by (simp add: literal_def attr_names)

lemma literal_transport:
  "map_of (literal d ver h this q) SEMATTRS_NET_TRANSPORT =
     Some (if opt h (connection_of h this) ''filename'' = JStr '':memory:''
           then JStr ''inproc'' else JUndefined)"
  by (simp add: literal_def attr_names)

lemma literal_optional:
  "map_of (literal d ver h this q) SEMATTRS_DB_SQL_TABLE =
     Some (extractTableName d h (lookup h this ''builder''))"
  "map_of (literal d ver h this q) SEMATTRS_DB_OPERATION = Some (opt h q ''method'')"
  "map_of (literal d ver h this q) SEMATTRS_DB_USER =
     Some (opt h (connection_of h this) ''user'')"
  "map_of (literal d ver h this q) SEMATTRS_DB_NAME =
     Some (js_or (opt h (connection_of h this) ''filename'')
                 (opt h (connection_of h this) ''database''))"
  "map_of (literal d ver h this q) SEMATTRS_NET_PEER_NAME =
     Some (opt h (connection_of h this) ''host'')"
  "map_of (literal d ver h this q) SEMATTRS_NET_PEER_PORT =
     Some (opt h (connection_of h this) ''port'')"
  by (simp_all add: literal_def attr_names)

lemma prepared_lookup:
  assumes "prepare d inst ver active h this q = Inr p"
      and "map_of (literal d ver h this q) k = Some v"
  shows "map_of (span_attributes p) k = Some v"
proof -
  have "k \<noteq> SEMATTRS_DB_STATEMENT"
    using assms(2) literal_statement [of d ver h this q] by auto
  then show ?thesis using prepare_Inr [OF assms(1)] assms(2)
    by (simp add: map_of_assign_other)
qed

lemma prepared_statement:
  assumes "prepare d inst ver active h this q = Inr p"
  shows "map_of (span_attributes p) SEMATTRS_DB_STATEMENT =
           (if truthy (read (getConfig inst) ''maxQueryLength'')
            then Some (limitLength (opt h q ''sql'') (read (getConfig inst) ''maxQueryLength''))
            else None)"
  using prepare_Inr [OF assms] by (simp add: map_of_assign_same literal_statement)

subsection \<open>The concrete host\<close>

lemmas example_store =
  example_heap_def plain_object_def get_def opt_def lookup_def nullish_def

lemma example_prepare:
  assumes "truthy (read (getConfig inst) ''maxQueryLength'')"
  shows "prepare example_deps inst (JStr ''1.0.0'') (Context 0 None) example_heap (JRef 0)
           (query_of [JRef 5]) =
         Inr (example_prepared
                (limitLength (JStr ''select ?'') (read (getConfig inst) ''maxQueryLength'')))"
  using assms
  by (simp add: prepare_def example_deps_def example_store js_or_def query_of_def
       get_context_def attr_names example_prepared_def)

lemma default_config:
  "read (getConfig (constructor None)) ''maxQueryLength'' = JNum 1022"
  "read (config_of (constructor None)) ''requireParentSpan'' = JBool False"
  by (simp_all add: constructor_def getConfig_def read_def spread_def DEFAULT_CONFIG_def
        argument_def)

lemma configured_maxQueryLength:
  "read (getConfig (configured ''maxQueryLength'' v)) ''maxQueryLength'' = v"
  "read (config_of (configured ''maxQueryLength'' v)) ''requireParentSpan'' = JBool False"
  by (simp_all add: configured_def constructor_def getConfig_def read_def spread_def
        DEFAULT_CONFIG_def argument_def)


lemma default_prepare:
  "prepare example_deps (constructor None) (JStr ''1.0.0'') (Context 0 None) example_heap
     (JRef 0) (query_of [JRef 5]) = Inr (example_prepared (JStr ''select ?''))"
proof -
  have "truthy (read (getConfig (constructor None)) ''maxQueryLength'')"
    by (simp add: default_config)
  from example_prepare [OF this] show ?thesis
    by (simp add: default_config limitLength_def)
qed

lemma default_traces: "\<not> bypasses (constructor None) p"
  by (simp add: bypasses_def default_config)

lemma example_traced:
  assumes "prepare example_deps inst (JStr ''1.0.0'') (Context 0 None) example_heap (JRef 0)
             (query_of [JRef 5]) = Inr p"
      and "\<not> bypasses inst p"
  shows "createQueryWrapper example_deps inst (JStr ''1.0.0'') (fulfilling v) (Span 1)
           (Context 0 None) (JRef 0) [JRef 5] example_heap =
         (Fulfilled v, example_heap,
          [StartSpan (Span 1) (span_name p) CLIENT (span_attributes p) (parentContext p),
           Invoke (Context 0 (Some (Span 1))) (JRef 0) [JRef 5], EndSpan (Span 1)])"
    and "createQueryWrapper example_deps inst (JStr ''1.0.0'') (rejecting err) (Span 1)
           (Context 0 None) (JRef 0) [JRef 5] example_heap =
         (fst (on_rejected example_deps example_heap (JRef 0) (query_of [JRef 5]) (Span 1) err),
          example_heap,
          [StartSpan (Span 1) (span_name p) CLIENT (span_attributes p) (parentContext p),
           Invoke (Context 0 (Some (Span 1))) (JRef 0) [JRef 5]] @
          snd (on_rejected example_deps example_heap (JRef 0) (query_of [JRef 5]) (Span 1) err))"
proof -
  have f: "fulfilling v (setSpan (Context 0 None) (Span 1)) (JRef 0) [JRef 5] example_heap
             = (Fulfilled v, example_heap)"
    by (simp add: fulfilling_def)
  have r: "rejecting err (setSpan (Context 0 None) (Span 1)) (JRef 0) [JRef 5] example_heap
             = (Rejected err, example_heap)"
    by (simp add: rejecting_def)
  show "createQueryWrapper example_deps inst (JStr ''1.0.0'') (fulfilling v) (Span 1)
           (Context 0 None) (JRef 0) [JRef 5] example_heap =
         (Fulfilled v, example_heap,
          [StartSpan (Span 1) (span_name p) CLIENT (span_attributes p) (parentContext p),
           Invoke (Context 0 (Some (Span 1))) (JRef 0) [JRef 5], EndSpan (Span 1)])"
    using wrapper_traced [where original = "fulfilling v", OF assms f]
    by (simp add: setSpan_def)
  show "createQueryWrapper example_deps inst (JStr ''1.0.0'') (rejecting err) (Span 1)
           (Context 0 None) (JRef 0) [JRef 5] example_heap =
         (fst (on_rejected example_deps example_heap (JRef 0) (query_of [JRef 5]) (Span 1) err),
          example_heap,
          [StartSpan (Span 1) (span_name p) CLIENT (span_attributes p) (parentContext p),
           Invoke (Context 0 (Some (Span 1))) (JRef 0) [JRef 5]] @
          snd (on_rejected example_deps example_heap (JRef 0) (query_of [JRef 5]) (Span 1) err))"
    using wrapper_traced [where original = "rejecting err", OF assms r]
    by (simp add: setSpan_def)
qed

subsection \<open>Failing executions\<close>

text \<open>
  Where the handler of lines 182 to 193 runs to its end: in a traced execution whose
  promise is rejected with \<open>err\<close>, the query descriptor not being nullish and \<open>err\<close>
  having a string message \<open>m\<close>, the wrapper's promise is rejected with \<open>err\<close> itself
  and the store is the one the host left. Before that the span gets the exception that
  \<^verbatim>\<open>utils.otelExceptionFromKnexError\<close> builds from \<open>err\<close> and the cleaned message, the
  error status with the cleaned message, and is ended. The cleaned message is \<open>m\<close>
  without the first occurrence of the interpolated SQL followed by \<^verbatim>\<open>' - '\<close>; when
  \<open>m\<close> starts with it, exactly that prefix is gone.
\<close>

lemma handled_rejection:
  assumes "prepare d inst ver active h this (query_of args) = Inr p"
      and "\<not> bypasses inst p"
      and "original (setSpan active s) this args h = (Rejected err, h')"
      and "\<not> nullish (query_of args)"
      and "get h' err ''message'' = Inr (JStr m)"
  shows "createQueryWrapper d inst ver original s active this args h =
           (Rejected (Raised err), h',
            [StartSpan s (span_name p) CLIENT (span_attributes p) (parentContext p),
             Invoke (setSpan active s) this args,
             RecordException s err
               (replace_first (fullQuery d h' this (query_of args) @ '' - '') m),
             SetStatusError s
               (replace_first (fullQuery d h' this (query_of args) @ '' - '') m),
             EndSpan s]) \<and>
         (\<forall>rest. m = fullQuery d h' this (query_of args) @ '' - '' @ rest \<longrightarrow>
            replace_first (fullQuery d h' this (query_of args) @ '' - '') m = rest)"
proof -
  have r: "on_rejected d h' this (query_of args) s err =
             (Rejected (Raised err),
              [RecordException s err
                 (replace_first (fullQuery d h' this (query_of args) @ '' - '') m),
               SetStatusError s
                 (replace_first (fullQuery d h' this (query_of args) @ '' - '') m),
               EndSpan s])"
    using assms(4,5) by (rule on_rejected_message)
  have w: "createQueryWrapper d inst ver original s active this args h =
             (fst (on_rejected d h' this (query_of args) s err), h',
              [StartSpan s (span_name p) CLIENT (span_attributes p) (parentContext p),
               Invoke (setSpan active s) this args] @
              snd (on_rejected d h' this (query_of args) s err))"
    using wrapper_traced [where original = original, OF assms(1,2,3)] by simp
  have p: "replace_first (fullQuery d h' this (query_of args) @ '' - '')
             ((fullQuery d h' this (query_of args) @ '' - '') @ rest) = rest" for rest
    by (rule replace_first_prefix) simp
  show ?thesis using w r p by simp
qed

text \<open>
  C1. The handler is written to record the cleaned error, end the span and rethrow
  \<open>err\<close> for every rejection (its comment: \<^verbatim>\<open>without changing the original error\<close>),
  and it does where it runs to its end. But it calls \<^verbatim>\<open>err.message.replace\<close> without
  a guard before any of that. When the host rejects with a value that has no string
  message, as the object at address 7, the call throws in the handler: the caller's
  promise is rejected with that \<^verbatim>\<open>TypeError\<close> in place of the object the host rejected
  with, nothing is recorded on the span, and the span is not ended.
\<close>

theorem rejection_without_message_masks_original:
  "rejecting (JRef 7) (setSpan (Context 0 None) (Span 1)) (JRef 0) [JRef 5] example_heap =
     (Rejected (JRef 7), example_heap) \<and>
   lookup example_heap (JRef 7) ''message'' = JUndefined \<and>
   createQueryWrapper example_deps (constructor None) (JStr ''1.0.0'')
       (rejecting (JRef 7)) (Span 1) (Context 0 None) (JRef 0) [JRef 5] example_heap =
     (Rejected TypeError, example_heap,
      [StartSpan (Span 1) ''knex.client.runner'' CLIENT
         (span_attributes (example_prepared (JStr ''select ?''))) (Context 0 None),
       Invoke (Context 0 (Some (Span 1))) (JRef 0) [JRef 5]])"
proof -
  have m: "\<forall>m. get example_heap (JRef 7) ''message'' \<noteq> Inr (JStr m)"
    by (simp add: example_store)
  have u: "lookup example_heap (JRef 7) ''message'' = JUndefined"
    by (simp add: example_store)
  show ?thesis
    using example_traced(2) [OF default_prepare default_traces, of "JRef 7"]
          on_rejected_no_message [OF m] u
    by (simp add: rejecting_def example_prepared_def)
qed

text \<open>
  C9. In a traced execution whose promise is rejected with \<open>err\<close>: when the query
  descriptor is not nullish and \<open>err\<close> has a string message, the handler runs to its end
  and the caller's promise is rejected with \<open>err\<close>; when the query descriptor is
  \<^verbatim>\<open>undefined\<close> or \<^verbatim>\<open>null\<close>, \<^verbatim>\<open>query.sql\<close> throws inside the handler, the
  caller's promise is rejected with that \<^verbatim>\<open>TypeError\<close> and not with \<open>err\<close>, and
  the span is not ended. (The preparation reads the descriptor with \<^verbatim>\<open>query?.\<close> only,
  so a nullish descriptor does reach the handler.)
\<close>

theorem rejection_handler_guards:
  assumes "prepare d inst ver active h this (query_of args) = Inr p"
      and "\<not> bypasses inst p"
      and "original (setSpan active s) this args h = (Rejected err, h')"
  shows "(\<not> nullish (query_of args) \<and> (\<exists>m. get h' err ''message'' = Inr (JStr m)) \<longrightarrow>
            outcome (createQueryWrapper d inst ver original s active this args h)
              = Rejected (Raised err)) \<and>
         (nullish (query_of args) \<longrightarrow>
            outcome (createQueryWrapper d inst ver original s active this args h)
              = Rejected TypeError \<and>
            outcome (createQueryWrapper d inst ver original s active this args h)
              \<noteq> Rejected (Raised err) \<and>
            filter is_end (events (createQueryWrapper d inst ver original s active this args h))
              = [])"
proof -
  note w = wrapper_traced [where original = original, OF assms]
  have one: "outcome (createQueryWrapper d inst ver original s active this args h)
              = Rejected (Raised err)"
    if "\<not> nullish (query_of args)" and "get h' err ''message'' = Inr (JStr m)" for m
    using w on_rejected_message [OF that] by (simp add: outcome_def)
  have two: "outcome (createQueryWrapper d inst ver original s active this args h)
              = Rejected TypeError \<and>
            filter is_end (events (createQueryWrapper d inst ver original s active this args h))
              = []"
    if "nullish (query_of args)"
    using w on_rejected_nullish [OF that] by (simp add: outcome_def events_def)
  show ?thesis using one two by auto
qed

theorem rejection_handler_guards_witness:
  "\<not> nullish (query_of [JRef 5]) \<and>
   get example_heap (JRef 6) ''message'' = Inr (JStr ''select 7 - no such table'') \<and>
   outcome (createQueryWrapper example_deps (constructor None) (JStr ''1.0.0'')
       (rejecting (JRef 6)) (Span 1) (Context 0 None) (JRef 0) [JRef 5] example_heap)
     = Rejected (Raised (JRef 6)) \<and>
   nullish (query_of []) \<and>
   (\<exists>p. prepare example_deps (constructor None) (JStr ''1.0.0'') (Context 0 None) example_heap
          (JRef 0) (query_of []) = Inr p) \<and>
   outcome (createQueryWrapper example_deps (constructor None) (JStr ''1.0.0'')
       (rejecting (JRef 6)) (Span 1) (Context 0 None) (JRef 0) [] example_heap)
     = Rejected TypeError \<and>
   filter is_end (events (createQueryWrapper example_deps (constructor None) (JStr ''1.0.0'')
       (rejecting (JRef 6)) (Span 1) (Context 0 None) (JRef 0) [] example_heap)) = []"
proof -
  have n: "\<not> nullish (query_of [JRef 5])" by (simp add: query_of_def nullish_def)
  have m: "get example_heap (JRef 6) ''message'' = Inr (JStr ''select 7 - no such table'')"
    by (simp add: example_store)
  have u: "nullish (query_of [])" by (simp add: query_of_def nullish_def)
  have "\<exists>p. prepare example_deps (constructor None) (JStr ''1.0.0'') (Context 0 None)
              example_heap (JRef 0) (query_of []) = Inr p"
    by (simp add: prepare_def example_store get_context_def Let_def)
  then obtain p where
    p: "prepare example_deps (constructor None) (JStr ''1.0.0'') (Context 0 None)
          example_heap (JRef 0) (query_of []) = Inr p" ..
  have c: "rejecting (JRef 6) (setSpan (Context 0 None) (Span 1)) (JRef 0) args example_heap
             = (Rejected (JRef 6), example_heap)" for args
    by (simp add: rejecting_def)
  from rejection_handler_guards
         [where original = "rejecting (JRef 6)", OF default_prepare default_traces c]
       rejection_handler_guards
         [where original = "rejecting (JRef 6)", OF p default_traces c]
  show ?thesis using n m u p by blast
qed

subsection \<open>Passing through without a parent\<close>




subsection \<open>One span, ended once\<close>

text \<open>
  Without the parent-span requirement, when the preparation completes and the original
  returns a promise, exactly one span is started, as a client span with the prepared
  name, attributes and parent, whether or not that parent has a span; it is ended exactly
  once, as the last thing the wrapper does, when the promise is fulfilled, and when it is
  rejected and the handler runs to its end.
\<close>

lemma handled_execution_one_span:
  assumes "\<not> truthy (read (config_of inst) ''requireParentSpan'')"
      and "prepare d inst ver active h this (query_of args) = Inr p"
      and "original (setSpan active s) this args h = (c, h')"
      and "(\<exists>v. c = Fulfilled v) \<or>
           (\<exists>err m. c = Rejected err \<and> \<not> nullish (query_of args) \<and>
                    get h' err ''message'' = Inr (JStr m))"
  shows "filter is_start (events (createQueryWrapper d inst ver original s active this args h))
           = [StartSpan s (span_name p) CLIENT (span_attributes p) (parentContext p)] \<and>
         filter is_end (events (createQueryWrapper d inst ver original s active this args h))
           = [EndSpan s] \<and>
         last (events (createQueryWrapper d inst ver original s active this args h))
           = EndSpan s"
proof -
  have t: "\<not> bypasses inst p" using assms(1) by (simp add: bypasses_def)
  note w = wrapper_traced [where original = original, OF assms(2) t assms(3)]
  from assms(4) show ?thesis
  proof
    assume "\<exists>v. c = Fulfilled v"
    then show ?thesis using w by (auto simp: events_def)
  next
    assume "\<exists>err m. c = Rejected err \<and> \<not> nullish (query_of args) \<and>
                    get h' err ''message'' = Inr (JStr m)"
    then obtain err m where c: "c = Rejected err" and n: "\<not> nullish (query_of args)"
      and m: "get h' err ''message'' = Inr (JStr m)" by blast
    show ?thesis using w c on_rejected_message [OF n m] by (simp add: events_def)
  qed
qed

text \<open>
  C3. On the error path the span is ended by the last but one statement of the handler,
  after \<^verbatim>\<open>query.sql\<close> and \<^verbatim>\<open>err.message.replace\<close>, which are not guarded. When the
  host rejects with a value that has no string message (here the string \<^verbatim>\<open>'boom'\<close>),
  the handler throws before \<^verbatim>\<open>span.end()\<close>: with \<^verbatim>\<open>requireParentSpan\<close> false one span
  is started and it is never ended.
\<close>

theorem rejection_without_message_leaves_span_open:
  "\<not> truthy (read (config_of (constructor None)) ''requireParentSpan'') \<and>
   rejecting (JStr ''boom'') (setSpan (Context 0 None) (Span 1)) (JRef 0) [JRef 5]
       example_heap = (Rejected (JStr ''boom''), example_heap) \<and>
   events (createQueryWrapper example_deps (constructor None) (JStr ''1.0.0'')
       (rejecting (JStr ''boom'')) (Span 1) (Context 0 None) (JRef 0) [JRef 5] example_heap)
     = [StartSpan (Span 1) ''knex.client.runner'' CLIENT
          (span_attributes (example_prepared (JStr ''select ?''))) (Context 0 None),
        Invoke (Context 0 (Some (Span 1))) (JRef 0) [JRef 5]] \<and>
   filter is_end (events (createQueryWrapper example_deps (constructor None) (JStr ''1.0.0'')
       (rejecting (JStr ''boom'')) (Span 1) (Context 0 None) (JRef 0) [JRef 5] example_heap))
     = []"
proof -
  have m: "\<forall>m. get example_heap (JStr ''boom'') ''message'' \<noteq> Inr (JStr m)"
    by (simp add: get_def lookup_def nullish_def)
  have e: "events (createQueryWrapper example_deps (constructor None) (JStr ''1.0.0'')
       (rejecting (JStr ''boom'')) (Span 1) (Context 0 None) (JRef 0) [JRef 5] example_heap)
     = [StartSpan (Span 1) ''knex.client.runner'' CLIENT
          (span_attributes (example_prepared (JStr ''select ?''))) (Context 0 None),
        Invoke (Context 0 (Some (Span 1))) (JRef 0) [JRef 5]]"
    using example_traced(2) [OF default_prepare default_traces, of "JStr ''boom''"]
          on_rejected_no_message [OF m]
    by (simp add: events_def example_prepared_def)
  show ?thesis unfolding e by (simp add: default_config rejecting_def)
qed

subsection \<open>Attributes of the span\<close>

lemma started_statement:
  assumes "StartSpan s' nm k attrs par \<in>
             set (events (createQueryWrapper d inst ver original s active this args h))"
  shows "map_of attrs SEMATTRS_DB_STATEMENT =
           (if truthy (read (getConfig inst) ''maxQueryLength'')
            then Some (limitLength (opt h (query_of args) ''sql'')
                         (read (getConfig inst) ''maxQueryLength''))
            else None)"
proof -
  from started_span [OF assms] obtain p where
    p: "prepare d inst ver active h this (query_of args) = Inr p" and
    a: "attrs = span_attributes p" by blast
  show ?thesis unfolding a by (rule prepared_statement [OF p])
qed

lemma started_attribute:
  assumes "StartSpan s' nm k attrs par \<in>
             set (events (createQueryWrapper d inst ver original s active this args h))"
      and "map_of (literal d ver h this (query_of args)) key = Some v"
  shows "map_of attrs key = Some v"
proof -
  from started_span [OF assms(1)] obtain p where
    p: "prepare d inst ver active h this (query_of args) = Inr p" and
    a: "attrs = span_attributes p" by blast
  show ?thesis unfolding a using p assms(2) by (rule prepared_lookup)
qed

lemma emitted_Some: "map_of attrs k = Some v \<Longrightarrow>
   emitted attrs k = (if nullish v then None else Some v)"
  by (simp add: emitted_def)

lemma emitted_defined: "emitted attrs k = Some v \<Longrightarrow> v \<noteq> JUndefined \<and> v \<noteq> JNull"
  by (auto simp: emitted_def nullish_def split: option.splits if_splits)

text \<open>
  C5. Let \<^verbatim>\<open>maxQueryLength\<close> be configured as the specification has it, a number that
  is not negative or \<^verbatim>\<open>undefined\<close>. The attributes of every span the wrapper starts
  have the statement key exactly when \<^verbatim>\<open>maxQueryLength\<close> is a positive number. The
  value is then \<^verbatim>\<open>limitLength(query?.sql, maxQueryLength)\<close>: for the positive number
  \<open>n\<close> and a raw SQL text, the first \<open>n\<close> characters of the text, at most \<open>n\<close>
  characters, and this is what the span emits. With zero or \<^verbatim>\<open>undefined\<close> the object
  has no statement key at all, so no empty string either.
\<close>

theorem statement_attribute:
  assumes "StartSpan s' nm k attrs par \<in>
             set (events (createQueryWrapper d inst ver original s active this args h))"
      and "read (getConfig inst) ''maxQueryLength'' = JUndefined \<or>
           (\<exists>n. read (getConfig inst) ''maxQueryLength'' = JNum n \<and> 0 \<le> n)"
  shows "(map_of attrs SEMATTRS_DB_STATEMENT \<noteq> None) =
           (\<exists>n. read (getConfig inst) ''maxQueryLength'' = JNum n \<and> 0 < n) \<and>
         (\<forall>n. read (getConfig inst) ''maxQueryLength'' = JNum n \<and> 0 < n \<longrightarrow>
            map_of attrs SEMATTRS_DB_STATEMENT =
              Some (limitLength (opt h (query_of args) ''sql'') (JNum n))) \<and>
         (\<forall>n raw. read (getConfig inst) ''maxQueryLength'' = JNum n \<and> 0 < n \<and>
                  opt h (query_of args) ''sql'' = JStr raw \<longrightarrow>
            map_of attrs SEMATTRS_DB_STATEMENT = Some (JStr (take (nat n) raw)) \<and>
            emitted attrs SEMATTRS_DB_STATEMENT = Some (JStr (take (nat n) raw)) \<and>
            length (take (nat n) raw) \<le> nat n) \<and>
         (read (getConfig inst) ''maxQueryLength'' = JNum 0 \<or>
          read (getConfig inst) ''maxQueryLength'' = JUndefined \<longrightarrow>
            map_of attrs SEMATTRS_DB_STATEMENT = None \<and>
            emitted attrs SEMATTRS_DB_STATEMENT = None)"
proof -
  let ?mq = "read (getConfig inst) ''maxQueryLength''"
  note st = started_statement [OF assms(1)]
  have t: "truthy ?mq = (\<exists>n. ?mq = JNum n \<and> 0 < n)"
    using assms(2) by auto
  have one: "(map_of attrs SEMATTRS_DB_STATEMENT \<noteq> None) = (\<exists>n. ?mq = JNum n \<and> 0 < n)"
    unfolding st t [symmetric] by simp
  have two: "map_of attrs SEMATTRS_DB_STATEMENT =
               Some (limitLength (opt h (query_of args) ''sql'') (JNum n))"
    if "?mq = JNum n \<and> 0 < n" for n
    unfolding st using that by simp
  have three: "map_of attrs SEMATTRS_DB_STATEMENT = Some (JStr (take (nat n) raw)) \<and>
               emitted attrs SEMATTRS_DB_STATEMENT = Some (JStr (take (nat n) raw)) \<and>
               length (take (nat n) raw) \<le> nat n"
    if "?mq = JNum n \<and> 0 < n \<and> opt h (query_of args) ''sql'' = JStr raw" for n raw
  proof -
    have m: "map_of attrs SEMATTRS_DB_STATEMENT = Some (JStr (take (nat n) raw))"
      unfolding st using that by (simp add: limitLength_def)
    show ?thesis using m by (simp add: emitted_Some nullish_def)
  qed
  have four: "map_of attrs SEMATTRS_DB_STATEMENT = None \<and>
              emitted attrs SEMATTRS_DB_STATEMENT = None"
    if "?mq = JNum 0 \<or> ?mq = JUndefined"
  proof -
    have "\<not> truthy ?mq" using that by auto
    then have "map_of attrs SEMATTRS_DB_STATEMENT = None" unfolding st by simp
    then show ?thesis by (simp add: emitted_def)
  qed
  show ?thesis using one two three four by blast
qed

lemma truncating_prepare:
  "prepare example_deps (configured ''maxQueryLength'' (JNum 3)) (JStr ''1.0.0'')
     (Context 0 None) example_heap (JRef 0) (query_of [JRef 5])
     = Inr (example_prepared (JStr ''sel''))"
proof -
  have "truthy (read (getConfig (configured ''maxQueryLength'' (JNum 3))) ''maxQueryLength'')"
    by (simp add: configured_maxQueryLength)
  from example_prepare [OF this] show ?thesis
    by (simp add: configured_maxQueryLength limitLength_def)
qed

lemma configured_traces: "\<not> bypasses (configured ''maxQueryLength'' v) p"
  by (simp add: bypasses_def configured_maxQueryLength)

lemma example_first_event:
  assumes "\<exists>p. prepare example_deps inst (JStr ''1.0.0'') (Context 0 None) h (JRef 0)
                (query_of [JRef 5]) = Inr p"
      and "\<not> truthy (read (config_of inst) ''requireParentSpan'')"
  shows "\<exists>nm attrs par.
           events (createQueryWrapper example_deps inst (JStr ''1.0.0'')
                     (fulfilling (JStr ''rows'')) (Span 1) (Context 0 None) (JRef 0) [JRef 5] h) =
             [StartSpan (Span 1) nm CLIENT attrs par,
              Invoke (Context 0 (Some (Span 1))) (JRef 0) [JRef 5], EndSpan (Span 1)]"
proof -
  from assms(1) obtain p where
    p: "prepare example_deps inst (JStr ''1.0.0'') (Context 0 None) h (JRef 0)
          (query_of [JRef 5]) = Inr p" ..
  have b: "\<not> bypasses inst p" using assms(2) by (simp add: bypasses_def)
  have f: "fulfilling (JStr ''rows'') (setSpan (Context 0 None) (Span 1)) (JRef 0) [JRef 5] h
             = (Fulfilled (JStr ''rows''), h)"
    by (simp add: fulfilling_def)
  have "events (createQueryWrapper example_deps inst (JStr ''1.0.0'')
                  (fulfilling (JStr ''rows'')) (Span 1) (Context 0 None) (JRef 0) [JRef 5] h) =
          [StartSpan (Span 1) (span_name p) CLIENT (span_attributes p) (parentContext p),
           Invoke (Context 0 (Some (Span 1))) (JRef 0) [JRef 5], EndSpan (Span 1)]"
    using wrapper_traced [where original = "fulfilling (JStr ''rows'')", OF p b f]
    by (simp add: events_def setSpan_def)
  then show ?thesis by (intro exI)
qed

theorem statement_attribute_witness:
  "read (getConfig (configured ''maxQueryLength'' (JNum 3))) ''maxQueryLength'' = JNum 3 \<and>
   opt example_heap (query_of [JRef 5]) ''sql'' = JStr ''select ?'' \<and>
   (\<exists>nm attrs par.
      events (createQueryWrapper example_deps (configured ''maxQueryLength'' (JNum 3))
                (JStr ''1.0.0'') (fulfilling (JStr ''rows'')) (Span 1) (Context 0 None)
                (JRef 0) [JRef 5] example_heap) =
        [StartSpan (Span 1) nm CLIENT attrs par,
         Invoke (Context 0 (Some (Span 1))) (JRef 0) [JRef 5], EndSpan (Span 1)] \<and>
      map_of attrs SEMATTRS_DB_STATEMENT = Some (JStr ''sel'') \<and>
      emitted attrs SEMATTRS_DB_STATEMENT = Some (JStr ''sel'')) \<and>
   read (getConfig (configured ''maxQueryLength'' (JNum 0))) ''maxQueryLength'' = JNum 0 \<and>
   (\<exists>nm attrs par.
      events (createQueryWrapper example_deps (configured ''maxQueryLength'' (JNum 0))
                (JStr ''1.0.0'') (fulfilling (JStr ''rows'')) (Span 1) (Context 0 None)
                (JRef 0) [JRef 5] example_heap) =
        [StartSpan (Span 1) nm CLIENT attrs par,
         Invoke (Context 0 (Some (Span 1))) (JRef 0) [JRef 5], EndSpan (Span 1)] \<and>
      map_of attrs SEMATTRS_DB_STATEMENT = None \<and>
      emitted attrs SEMATTRS_DB_STATEMENT = None)"
proof -
  let ?three = "configured ''maxQueryLength'' (JNum 3)"
  let ?zero = "configured ''maxQueryLength'' (JNum 0)"
  let ?run = "\<lambda>inst. createQueryWrapper example_deps inst (JStr ''1.0.0'')
                        (fulfilling (JStr ''rows'')) (Span 1) (Context 0 None) (JRef 0)
                        [JRef 5] example_heap"
  have c3: "read (getConfig ?three) ''maxQueryLength'' = JNum 3"
    and c0: "read (getConfig ?zero) ''maxQueryLength'' = JNum 0"
    by (simp_all add: configured_maxQueryLength)
  have q: "opt example_heap (query_of [JRef 5]) ''sql'' = JStr ''select ?''"
    by (simp add: query_of_def example_store)
  have r: "\<not> truthy (read (config_of (configured ''maxQueryLength'' v)) ''requireParentSpan'')"
    for v by (simp add: configured_maxQueryLength)
  have d3: "read (getConfig ?three) ''maxQueryLength'' = JUndefined \<or>
            (\<exists>n. read (getConfig ?three) ''maxQueryLength'' = JNum n \<and> 0 \<le> n)"
    and d0: "read (getConfig ?zero) ''maxQueryLength'' = JUndefined \<or>
             (\<exists>n. read (getConfig ?zero) ''maxQueryLength'' = JNum n \<and> 0 \<le> n)"
    by (simp_all add: c3 c0)
  have p3: "\<exists>p. prepare example_deps ?three (JStr ''1.0.0'') (Context 0 None) example_heap
                 (JRef 0) (query_of [JRef 5]) = Inr p"
    using truncating_prepare by (intro exI)
  have p0: "\<exists>p. prepare example_deps ?zero (JStr ''1.0.0'') (Context 0 None) example_heap
                 (JRef 0) (query_of [JRef 5]) = Inr p"
    by (simp add: prepare_def example_store get_context_def Let_def)
  from example_first_event [OF p3 r] obtain nm attrs par where
    e3: "events (?run ?three) =
           [StartSpan (Span 1) nm CLIENT attrs par,
            Invoke (Context 0 (Some (Span 1))) (JRef 0) [JRef 5], EndSpan (Span 1)]"
    by blast
  from example_first_event [OF p0 r] obtain nm' attrs' par' where
    e0: "events (?run ?zero) =
           [StartSpan (Span 1) nm' CLIENT attrs' par',
            Invoke (Context 0 (Some (Span 1))) (JRef 0) [JRef 5], EndSpan (Span 1)]"
    by blast
  have m3: "StartSpan (Span 1) nm CLIENT attrs par \<in> set (events (?run ?three))"
    unfolding e3 by simp
  have m0: "StartSpan (Span 1) nm' CLIENT attrs' par' \<in> set (events (?run ?zero))"
    unfolding e0 by simp
  note long = statement_attribute
                [where original = "fulfilling (JStr ''rows'')", OF m3 d3,
                 THEN conjunct2, THEN conjunct2, THEN conjunct1, rule_format,
                 OF conjI [OF c3 conjI [OF _ q]]]
  note none = statement_attribute
                [where original = "fulfilling (JStr ''rows'')", OF m0 d0,
                 THEN conjunct2, THEN conjunct2, THEN conjunct2, rule_format,
                 OF disjI1 [OF c0]]
  have v3: "map_of attrs SEMATTRS_DB_STATEMENT = Some (JStr ''sel'') \<and>
            emitted attrs SEMATTRS_DB_STATEMENT = Some (JStr ''sel'')"
    using long by simp
  from e3 v3 have "events (?run ?three) =
              [StartSpan (Span 1) nm CLIENT attrs par,
               Invoke (Context 0 (Some (Span 1))) (JRef 0) [JRef 5], EndSpan (Span 1)] \<and>
            map_of attrs SEMATTRS_DB_STATEMENT = Some (JStr ''sel'') \<and>
            emitted attrs SEMATTRS_DB_STATEMENT = Some (JStr ''sel'')"
    by (rule conjI)
  then have x3: "\<exists>nm attrs par. events (?run ?three) =
              [StartSpan (Span 1) nm CLIENT attrs par,
               Invoke (Context 0 (Some (Span 1))) (JRef 0) [JRef 5], EndSpan (Span 1)] \<and>
            map_of attrs SEMATTRS_DB_STATEMENT = Some (JStr ''sel'') \<and>
            emitted attrs SEMATTRS_DB_STATEMENT = Some (JStr ''sel'')"
    by (intro exI)
  from e0 none have "events (?run ?zero) =
              [StartSpan (Span 1) nm' CLIENT attrs' par',
               Invoke (Context 0 (Some (Span 1))) (JRef 0) [JRef 5], EndSpan (Span 1)] \<and>
            map_of attrs' SEMATTRS_DB_STATEMENT = None \<and>
            emitted attrs' SEMATTRS_DB_STATEMENT = None"
    by (rule conjI)
  then have x0: "\<exists>nm attrs par. events (?run ?zero) =
              [StartSpan (Span 1) nm CLIENT attrs par,
               Invoke (Context 0 (Some (Span 1))) (JRef 0) [JRef 5], EndSpan (Span 1)] \<and>
            map_of attrs SEMATTRS_DB_STATEMENT = None \<and>
            emitted attrs SEMATTRS_DB_STATEMENT = None"
    by (intro exI)
  from c3 q x3 c0 x0 show ?thesis by (intro conjI)
qed

text \<open>
  C6. Of the attributes of every span the wrapper starts, the transport attribute is
  emitted as \<^verbatim>\<open>'inproc'\<close> exactly when the connection's filename is the string
  \<^verbatim>\<open>':memory:'\<close>; for any other filename and without one the object holds
  \<^verbatim>\<open>undefined\<close> under the key and the attribute is absent from the emitted set. No
  attribute is emitted with the value \<^verbatim>\<open>undefined\<close> or \<^verbatim>\<open>null\<close>: table, operation,
  user, database name, peer host and peer port are emitted with the value the source
  reads for them, and are absent when that value is \<^verbatim>\<open>undefined\<close> or \<^verbatim>\<open>null\<close>.
\<close>

theorem transport_attribute:
  assumes "StartSpan s' nm k attrs par \<in>
             set (events (createQueryWrapper d inst ver original s active this args h))"
  shows "emitted attrs SEMATTRS_NET_TRANSPORT =
           (if opt h (connection_of h this) ''filename'' = JStr '':memory:''
            then Some (JStr ''inproc'') else None) \<and>
         (emitted attrs SEMATTRS_NET_TRANSPORT = Some (JStr ''inproc'')) =
           (opt h (connection_of h this) ''filename'' = JStr '':memory:'') \<and>
         (\<forall>key v. emitted attrs key = Some v \<longrightarrow> v \<noteq> JUndefined \<and> v \<noteq> JNull) \<and>
         emitted attrs SEMATTRS_DB_SQL_TABLE =
           (if nullish (extractTableName d h (lookup h this ''builder'')) then None
            else Some (extractTableName d h (lookup h this ''builder''))) \<and>
         emitted attrs SEMATTRS_DB_OPERATION =
           (if nullish (opt h (query_of args) ''method'') then None
            else Some (opt h (query_of args) ''method'')) \<and>
         emitted attrs SEMATTRS_DB_USER =
           (if nullish (opt h (connection_of h this) ''user'') then None
            else Some (opt h (connection_of h this) ''user'')) \<and>
         emitted attrs SEMATTRS_DB_NAME =
           (if nullish (js_or (opt h (connection_of h this) ''filename'')
                              (opt h (connection_of h this) ''database'')) then None
            else Some (js_or (opt h (connection_of h this) ''filename'')
                             (opt h (connection_of h this) ''database''))) \<and>
         emitted attrs SEMATTRS_NET_PEER_NAME =
           (if nullish (opt h (connection_of h this) ''host'') then None
            else Some (opt h (connection_of h this) ''host'')) \<and>
         emitted attrs SEMATTRS_NET_PEER_PORT =
           (if nullish (opt h (connection_of h this) ''port'') then None
            else Some (opt h (connection_of h this) ''port''))"
proof -
  note l = started_attribute [OF assms]
  have "map_of attrs SEMATTRS_NET_TRANSPORT =
           Some (if opt h (connection_of h this) ''filename'' = JStr '':memory:''
                 then JStr ''inproc'' else JUndefined)"
    by (rule l) (rule literal_transport)
  then have t: "emitted attrs SEMATTRS_NET_TRANSPORT =
           (if opt h (connection_of h this) ''filename'' = JStr '':memory:''
            then Some (JStr ''inproc'') else None)"
    by (simp add: emitted_Some nullish_def)
  have o: "emitted attrs SEMATTRS_DB_SQL_TABLE =
           (if nullish (extractTableName d h (lookup h this ''builder'')) then None
            else Some (extractTableName d h (lookup h this ''builder'')))"
     "emitted attrs SEMATTRS_DB_OPERATION =
           (if nullish (opt h (query_of args) ''method'') then None
            else Some (opt h (query_of args) ''method''))"
     "emitted attrs SEMATTRS_DB_USER =
           (if nullish (opt h (connection_of h this) ''user'') then None
            else Some (opt h (connection_of h this) ''user''))"
     "emitted attrs SEMATTRS_DB_NAME =
           (if nullish (js_or (opt h (connection_of h this) ''filename'')
                              (opt h (connection_of h this) ''database'')) then None
            else Some (js_or (opt h (connection_of h this) ''filename'')
                             (opt h (connection_of h this) ''database'')))"
     "emitted attrs SEMATTRS_NET_PEER_NAME =
           (if nullish (opt h (connection_of h this) ''host'') then None
            else Some (opt h (connection_of h this) ''host''))"
     "emitted attrs SEMATTRS_NET_PEER_PORT =
           (if nullish (opt h (connection_of h this) ''port'') then None
            else Some (opt h (connection_of h this) ''port''))"
    by (rule emitted_Some, rule l, rule literal_optional)+
  have n: "\<forall>key v. emitted attrs key = Some v \<longrightarrow> v \<noteq> JUndefined \<and> v \<noteq> JNull"
    by (intro allI impI) (rule emitted_defined)
  have i: "(emitted attrs SEMATTRS_NET_TRANSPORT = Some (JStr ''inproc'')) =
           (opt h (connection_of h this) ''filename'' = JStr '':memory:'')"
    unfolding t by simp
  from t i n o show ?thesis by (intro conjI)
qed

text \<open>The same host with an in-memory database and a user that is \<^verbatim>\<open>null\<close>.\<close>

lemma memory_prepare:
  "prepare example_deps (constructor None) (JStr ''1.0.0'') (Context 0 None)
     (example_heap
        (4 := plain_object [(''filename'', JStr '':memory:''), (''user'', JNull)]))
     (JRef 0) (query_of [JRef 5]) =
   Inr ((example_prepared (JStr ''select ?''))
          \<lparr>span_attributes :=
             [(''knex.version'', JStr ''1.0.0''), (''db.system'', JStr ''sqlite''),
              (''db.sql.table'', JUndefined), (''db.operation'', JStr ''select''),
              (''db.user'', JNull), (''db.name'', JStr '':memory:''),
              (''net.peer.name'', JUndefined), (''net.peer.port'', JUndefined),
              (''net.transport'', JStr ''inproc''), (''db.statement'', JStr ''select ?'')]\<rparr>)"
  by (simp add: prepare_def example_deps_def example_store js_or_def query_of_def
       get_context_def attr_names example_prepared_def default_config limitLength_def)

theorem transport_attribute_witness:
  "opt (example_heap
         (4 := plain_object [(''filename'', JStr '':memory:''), (''user'', JNull)]))
       (connection_of
          (example_heap
             (4 := plain_object [(''filename'', JStr '':memory:''), (''user'', JNull)]))
          (JRef 0)) ''filename'' = JStr '':memory:'' \<and>
   (\<exists>nm attrs par.
      events (createQueryWrapper example_deps (constructor None) (JStr ''1.0.0'')
                (fulfilling (JStr ''rows'')) (Span 1) (Context 0 None) (JRef 0) [JRef 5]
                (example_heap
                   (4 := plain_object [(''filename'', JStr '':memory:''), (''user'', JNull)]))) =
        [StartSpan (Span 1) nm CLIENT attrs par,
         Invoke (Context 0 (Some (Span 1))) (JRef 0) [JRef 5], EndSpan (Span 1)] \<and>
      emitted attrs SEMATTRS_NET_TRANSPORT = Some (JStr ''inproc'') \<and>
      emitted attrs SEMATTRS_DB_NAME = Some (JStr '':memory:'') \<and>
      emitted attrs SEMATTRS_DB_USER = None \<and>
      emitted attrs SEMATTRS_NET_PEER_NAME = None) \<and>
   opt example_heap (connection_of example_heap (JRef 0)) ''filename'' = JStr ''test.db'' \<and>
   (\<exists>nm attrs par.
      events (createQueryWrapper example_deps (constructor None) (JStr ''1.0.0'')
                (fulfilling (JStr ''rows'')) (Span 1) (Context 0 None) (JRef 0) [JRef 5]
                example_heap) =
        [StartSpan (Span 1) nm CLIENT attrs par,
         Invoke (Context 0 (Some (Span 1))) (JRef 0) [JRef 5], EndSpan (Span 1)] \<and>
      emitted attrs SEMATTRS_NET_TRANSPORT = None \<and>
      emitted attrs SEMATTRS_DB_NAME = Some (JStr ''test.db''))"
proof -
  let ?h = "example_heap
              (4 := plain_object [(''filename'', JStr '':memory:''), (''user'', JNull)])"
  let ?run = "\<lambda>h. createQueryWrapper example_deps (constructor None) (JStr ''1.0.0'')
                     (fulfilling (JStr ''rows'')) (Span 1) (Context 0 None) (JRef 0)
                     [JRef 5] h"
  have r: "\<not> truthy (read (config_of (constructor None)) ''requireParentSpan'')"
    by (simp add: default_config)
  have pm: "\<exists>p. prepare example_deps (constructor None) (JStr ''1.0.0'') (Context 0 None) ?h
                 (JRef 0) (query_of [JRef 5]) = Inr p"
    using memory_prepare by (intro exI)
  have pd: "\<exists>p. prepare example_deps (constructor None) (JStr ''1.0.0'') (Context 0 None)
                 example_heap (JRef 0) (query_of [JRef 5]) = Inr p"
    using default_prepare by (intro exI)
  from example_first_event [OF pm r] obtain nm attrs par where
    em: "events (?run ?h) =
           [StartSpan (Span 1) nm CLIENT attrs par,
            Invoke (Context 0 (Some (Span 1))) (JRef 0) [JRef 5], EndSpan (Span 1)]"
    by blast
  from example_first_event [OF pd r] obtain nm' attrs' par' where
    ed: "events (?run example_heap) =
           [StartSpan (Span 1) nm' CLIENT attrs' par',
            Invoke (Context 0 (Some (Span 1))) (JRef 0) [JRef 5], EndSpan (Span 1)]"
    by blast
  have mm: "StartSpan (Span 1) nm CLIENT attrs par \<in> set (events (?run ?h))"
    unfolding em by simp
  have md: "StartSpan (Span 1) nm' CLIENT attrs' par' \<in> set (events (?run example_heap))"
    unfolding ed by simp
  have cm: "opt ?h (connection_of ?h (JRef 0)) ''filename'' = JStr '':memory:''"
           "opt ?h (connection_of ?h (JRef 0)) ''database'' = JUndefined"
           "opt ?h (connection_of ?h (JRef 0)) ''user'' = JNull"
           "opt ?h (connection_of ?h (JRef 0)) ''host'' = JUndefined"
    by (simp_all add: connection_of_def example_store)
  have cd: "opt example_heap (connection_of example_heap (JRef 0)) ''filename''
              = JStr ''test.db''"
    by (simp add: connection_of_def example_store)
  from transport_attribute [where original = "fulfilling (JStr ''rows'')", OF mm]
  have vm: "emitted attrs SEMATTRS_NET_TRANSPORT = Some (JStr ''inproc'') \<and>
            emitted attrs SEMATTRS_DB_NAME = Some (JStr '':memory:'') \<and>
            emitted attrs SEMATTRS_DB_USER = None \<and>
            emitted attrs SEMATTRS_NET_PEER_NAME = None"
    using cm by (simp add: js_or_def nullish_def)
  from transport_attribute [where original = "fulfilling (JStr ''rows'')", OF md]
  have vd: "emitted attrs' SEMATTRS_NET_TRANSPORT = None \<and>
            emitted attrs' SEMATTRS_DB_NAME = Some (JStr ''test.db'')"
    using cd by (simp add: js_or_def nullish_def)
  from em vm have "events (?run ?h) =
              [StartSpan (Span 1) nm CLIENT attrs par,
               Invoke (Context 0 (Some (Span 1))) (JRef 0) [JRef 5], EndSpan (Span 1)] \<and>
            emitted attrs SEMATTRS_NET_TRANSPORT = Some (JStr ''inproc'') \<and>
            emitted attrs SEMATTRS_DB_NAME = Some (JStr '':memory:'') \<and>
            emitted attrs SEMATTRS_DB_USER = None \<and>
            emitted attrs SEMATTRS_NET_PEER_NAME = None"
    by (rule conjI)
  then have xm: "\<exists>nm attrs par. events (?run ?h) =
              [StartSpan (Span 1) nm CLIENT attrs par,
               Invoke (Context 0 (Some (Span 1))) (JRef 0) [JRef 5], EndSpan (Span 1)] \<and>
            emitted attrs SEMATTRS_NET_TRANSPORT = Some (JStr ''inproc'') \<and>
            emitted attrs SEMATTRS_DB_NAME = Some (JStr '':memory:'') \<and>
            emitted attrs SEMATTRS_DB_USER = None \<and>
            emitted attrs SEMATTRS_NET_PEER_NAME = None"
    by (intro exI)
  from ed vd have "events (?run example_heap) =
              [StartSpan (Span 1) nm' CLIENT attrs' par',
               Invoke (Context 0 (Some (Span 1))) (JRef 0) [JRef 5], EndSpan (Span 1)] \<and>
            emitted attrs' SEMATTRS_NET_TRANSPORT = None \<and>
            emitted attrs' SEMATTRS_DB_NAME = Some (JStr ''test.db'')"
    by (rule conjI)
  then have xd: "\<exists>nm attrs par. events (?run example_heap) =
              [StartSpan (Span 1) nm CLIENT attrs par,
               Invoke (Context 0 (Some (Span 1))) (JRef 0) [JRef 5], EndSpan (Span 1)] \<and>
            emitted attrs SEMATTRS_NET_TRANSPORT = None \<and>
            emitted attrs SEMATTRS_DB_NAME = Some (JStr ''test.db'')"
    by (intro exI)
  from cm(1) xm cd xd show ?thesis by (intro conjI)
qed

section \<open>Properties of the context store\<close>

lemma defineProperty_fresh:
  assumes "contextSymbol (h a) = None" and "extensible (h a)"
  shows "defineProperty h (JRef a) c =
           Inr (h(a := (h a)\<lparr>contextSymbol :=
                  Some \<lparr>pvalue = c, writable = False, enumerable = False,
                        configurable = False\<rparr>\<rparr>))"
  using assms by (simp add: defineProperty_def)

lemma defineProperty_Inr:
  assumes "defineProperty h v c = Inr h'"
  shows "\<exists>a q. v = JRef a \<and> h' = h(a := (h a)\<lparr>contextSymbol := Some q\<rparr>) \<and>
           pvalue q = c \<and>
           (contextSymbol (h a) = None \<longrightarrow>
              q = \<lparr>pvalue = c, writable = False, enumerable = False, configurable = False\<rparr>)"
proof (cases v)
  case (JRef a)
  show ?thesis
  proof (cases "contextSymbol (h a)")
    case None
    then show ?thesis using assms JRef
      by (auto simp: defineProperty_def split: if_splits)
  next
    case (Some p)
    then have "h' = h(a := (h a)\<lparr>contextSymbol := Some (p\<lparr>pvalue := c\<rparr>)\<rparr>)"
      using assms JRef by (auto simp: defineProperty_def split: if_splits)
    then show ?thesis using JRef Some by auto
  qed
qed (use assms in \<open>simp_all add: defineProperty_def\<close>)

lemma storeContext_throw:
  "original this args h = (Inl e, h') \<Longrightarrow>
   storeContext original active this args h = (Inl (Raised e), h')"
  by (simp add: storeContext_def)

lemma storeContext_return:
  assumes "original this args h = (Inr v, h')"
  shows "storeContext original active this args h =
           (case defineProperty h' v active of
              Inl e \<Rightarrow> (Inl e, h')
            | Inr h'' \<Rightarrow> (Inr v, h''))"
  using assms by (simp add: storeContext_def)

text \<open>
  C10. When the factory throws, the wrapped factory throws the same value and leaves the
  store as the factory left it. When the wrapped factory returns, it returns the very
  value the factory returned, a reference to an object, and the store is the factory's
  except for the context property of that object, which holds the ambient context of the
  call; a property that was not there before is not writable, not enumerable and not
  configurable. It does return when the factory returns an extensible object without
  the property. Whenever the wrapped factory throws, the store is the factory's.
\<close>

theorem storeContext_frame:
  "(original this args h = (Inl e, h') \<longrightarrow>
      storeContext original active this args h = (Inl (Raised e), h')) \<and>
   (original this args h = (Inr v, h') \<and>
    storeContext original active this args h = (Inr r, h'') \<longrightarrow>
      r = v \<and>
      (\<exists>a q. v = JRef a \<and> h'' = h'(a := (h' a)\<lparr>contextSymbol := Some q\<rparr>) \<and>
             pvalue q = active \<and>
             (contextSymbol (h' a) = None \<longrightarrow>
                q = \<lparr>pvalue = active, writable = False, enumerable = False,
                     configurable = False\<rparr>))) \<and>
   (original this args h = (Inr (JRef b), h') \<and> contextSymbol (h' b) = None \<and>
    extensible (h' b) \<longrightarrow>
      storeContext original active this args h =
        (Inr (JRef b),
         h'(b := (h' b)\<lparr>contextSymbol :=
              Some \<lparr>pvalue = active, writable = False, enumerable = False,
                    configurable = False\<rparr>\<rparr>))) \<and>
   (fst (storeContext original active this args h) = Inl x \<longrightarrow>
      snd (storeContext original active this args h) = snd (original this args h))"
proof (intro conjI impI)
  assume "original this args h = (Inl e, h')"
  then show "storeContext original active this args h = (Inl (Raised e), h')"
    by (rule storeContext_throw)
next
  assume a: "original this args h = (Inr v, h') \<and>
             storeContext original active this args h = (Inr r, h'')"
  then have d: "defineProperty h' v active = Inr h''" and r: "r = v"
    using storeContext_return [of original this args h v h' active]
    by (auto split: sum.splits)
  show "r = v" by (rule r)
  show "\<exists>a q. v = JRef a \<and> h'' = h'(a := (h' a)\<lparr>contextSymbol := Some q\<rparr>) \<and>
             pvalue q = active \<and>
             (contextSymbol (h' a) = None \<longrightarrow>
                q = \<lparr>pvalue = active, writable = False, enumerable = False,
                     configurable = False\<rparr>)"
    using d by (rule defineProperty_Inr)
next
  assume a: "original this args h = (Inr (JRef b), h') \<and> contextSymbol (h' b) = None \<and>
             extensible (h' b)"
  then show "storeContext original active this args h =
        (Inr (JRef b),
         h'(b := (h' b)\<lparr>contextSymbol :=
              Some \<lparr>pvalue = active, writable = False, enumerable = False,
                    configurable = False\<rparr>\<rparr>))"
    using storeContext_return [of original this args h "JRef b" h' active]
    by (simp add: defineProperty_fresh)
next
  assume "fst (storeContext original active this args h) = Inl x"
  then show "snd (storeContext original active this args h) = snd (original this args h)"
    by (auto simp: storeContext_def split: prod.splits sum.splits)
qed

theorem storeContext_frame_witness:
  "throwing (JStr ''no client'') (JRef 1) [] example_heap =
     (Inl (JStr ''no client''), example_heap) \<and>
   storeContext (throwing (JStr ''no client'')) (Context 1 None) (JRef 1) [] example_heap =
     (Inl (Raised (JStr ''no client'')), example_heap) \<and>
   returning 2 (JRef 1) [] example_heap = (Inr (JRef 2), example_heap) \<and>
   contextSymbol (example_heap 2) = None \<and> extensible (example_heap 2) \<and>
   storeContext (returning 2) (Context 1 None) (JRef 1) [] example_heap =
     (Inr (JRef 2),
      example_heap(2 := (example_heap 2)\<lparr>contextSymbol :=
         Some \<lparr>pvalue = Context 1 None, writable = False, enumerable = False,
               configurable = False\<rparr>\<rparr>)) \<and>
   (\<exists>a q. JRef 2 = JRef a \<and>
      snd (storeContext (returning 2) (Context 1 None) (JRef 1) [] example_heap) =
        example_heap(a := (example_heap a)\<lparr>contextSymbol := Some q\<rparr>) \<and>
      pvalue q = Context 1 None) \<and>
   fst (storeContext (returning 2) (Context 1 None) (JRef 1) []
          (example_heap(2 := (example_heap 2)\<lparr>extensible := False\<rparr>))) = Inl TypeError \<and>
   snd (storeContext (returning 2) (Context 1 None) (JRef 1) []
          (example_heap(2 := (example_heap 2)\<lparr>extensible := False\<rparr>))) =
     example_heap(2 := (example_heap 2)\<lparr>extensible := False\<rparr>)"
proof -
  let ?frozen = "example_heap(2 := (example_heap 2)\<lparr>extensible := False\<rparr>)"
  have t: "throwing (JStr ''no client'') (JRef 1) [] example_heap
             = (Inl (JStr ''no client''), example_heap)"
    by (simp add: throwing_def)
  have r: "returning 2 (JRef 1) [] h = (Inr (JRef 2), h)" for h
    by (simp add: returning_def)
  have f: "contextSymbol (example_heap 2) = None" "extensible (example_heap 2)"
    by (simp_all add: example_heap_def plain_object_def)
  note thrown = storeContext_frame
         [where original = "throwing (JStr ''no client'')" and this = "JRef 1" and args = "[]"
            and h = example_heap and e = "JStr ''no client''" and h' = example_heap
            and active = "Context 1 None", THEN conjunct1, rule_format]
  note fresh = storeContext_frame
         [where original = "returning 2" and this = "JRef 1" and args = "[]"
            and h = example_heap and b = 2 and h' = example_heap
            and active = "Context 1 None",
          THEN conjunct2, THEN conjunct2, THEN conjunct1, rule_format]
  have s1: "storeContext (throwing (JStr ''no client'')) (Context 1 None) (JRef 1) []
              example_heap = (Inl (Raised (JStr ''no client'')), example_heap)"
    using t by (rule thrown)
  have s2: "storeContext (returning 2) (Context 1 None) (JRef 1) [] example_heap =
     (Inr (JRef 2),
      example_heap(2 := (example_heap 2)\<lparr>contextSymbol :=
         Some \<lparr>pvalue = Context 1 None, writable = False, enumerable = False,
               configurable = False\<rparr>\<rparr>))"
    using r f by (intro fresh conjI)
  note returned = storeContext_frame
         [where original = "returning 2" and this = "JRef 1" and args = "[]"
            and h = example_heap and v = "JRef 2" and h' = example_heap
            and active = "Context 1 None" and r = "JRef 2"
            and h'' = "example_heap(2 := (example_heap 2)\<lparr>contextSymbol :=
                         Some \<lparr>pvalue = Context 1 None, writable = False,
                               enumerable = False, configurable = False\<rparr>\<rparr>)",
          THEN conjunct2, THEN conjunct1, rule_format, OF conjI [OF r s2], THEN conjunct2]
  have s3: "\<exists>a q. JRef 2 = JRef a \<and>
      snd (storeContext (returning 2) (Context 1 None) (JRef 1) [] example_heap) =
        example_heap(a := (example_heap a)\<lparr>contextSymbol := Some q\<rparr>) \<and>
      pvalue q = Context 1 None"
    using returned unfolding s2 snd_conv by blast
  have e: "fst (storeContext (returning 2) (Context 1 None) (JRef 1) [] ?frozen) = Inl TypeError"
    by (simp add: storeContext_def returning_def defineProperty_def example_heap_def
          plain_object_def)
  note failed = storeContext_frame
         [where original = "returning 2" and this = "JRef 1" and args = "[]"
            and h = ?frozen and active = "Context 1 None" and x = TypeError,
          THEN conjunct2, THEN conjunct2, THEN conjunct2, rule_format]
  have s4: "snd (storeContext (returning 2) (Context 1 None) (JRef 1) [] ?frozen) = ?frozen"
    using failed [OF e] by (simp add: returning_def)
  from t s1 r f s2 s3 e s4 show ?thesis by (intro conjI)
qed

text \<open>
  C4. A builder that a wrapped factory returns while \<open>captured\<close> is the ambient
  context, as an extensible object that does not have the property yet, is returned as
  it is with the context property added: the property holds \<open>captured\<close> and is not
  writable, not enumerable and not configurable, and nothing else in the store changes.
  Defining the property again with another context throws. In any later store where the
  builder still has that property, every span that the
  wrapped execution method starts for a runner of this builder while \<open>ambient\<close> is
  the ambient context has the parent \<open>captured\<close>. For a builder without the property
  the parent is \<open>ambient\<close>.
\<close>

theorem captured_context_is_parent:
  assumes "factory fthis fargs hf = (Inr (JRef b), hb)"
      and "contextSymbol (hb b) = None"
      and "extensible (hb b)"
  shows "storeContext factory captured fthis fargs hf =
           (Inr (JRef b),
            hb(b := (hb b)\<lparr>contextSymbol :=
                 Some \<lparr>pvalue = captured, writable = False, enumerable = False,
                       configurable = False\<rparr>\<rparr>)) \<and>
         (\<forall>other. other \<noteq> captured \<longrightarrow>
            defineProperty (snd (storeContext factory captured fthis fargs hf)) (JRef b) other
              = Inl TypeError) \<and>
         (\<forall>h s' nm k attrs par.
            contextSymbol (h b) =
              contextSymbol (snd (storeContext factory captured fthis fargs hf) b) \<and>
            lookup h this ''builder'' = JRef b \<and>
            StartSpan s' nm k attrs par \<in>
              set (events (createQueryWrapper d inst ver original s ambient this args h))
            \<longrightarrow> par = captured) \<and>
         (\<forall>h s' nm k attrs par.
            get_context h (lookup h this ''builder'') = Inr None \<and>
            StartSpan s' nm k attrs par \<in>
              set (events (createQueryWrapper d inst ver original s ambient this args h))
            \<longrightarrow> par = ambient)"
proof (intro conjI allI impI)
  show st: "storeContext factory captured fthis fargs hf =
           (Inr (JRef b),
            hb(b := (hb b)\<lparr>contextSymbol :=
                 Some \<lparr>pvalue = captured, writable = False, enumerable = False,
                       configurable = False\<rparr>\<rparr>))"
    using storeContext_return [where original = factory and active = captured, OF assms(1)]
          assms(2,3)
    by (simp add: defineProperty_fresh)
  {
    fix other assume "other \<noteq> captured"
    then show "defineProperty (snd (storeContext factory captured fthis fargs hf)) (JRef b)
                 other = Inl TypeError"
      unfolding st snd_conv by (simp add: defineProperty_def)
  }
  fix h s' nm k attrs par
  {
    assume a: "contextSymbol (h b) =
                 contextSymbol (snd (storeContext factory captured fthis fargs hf) b) \<and>
               lookup h this ''builder'' = JRef b \<and>
               StartSpan s' nm k attrs par \<in>
                 set (events (createQueryWrapper d inst ver original s ambient this args h))"
    then have c: "contextSymbol (h b) =
                    Some \<lparr>pvalue = captured, writable = False, enumerable = False,
                          configurable = False\<rparr>"
      using st by simp
    from a started_span obtain p where
      p: "prepare d inst ver ambient h this (query_of args) = Inr p" and
      q: "par = parentContext p" by blast
    from prepare_Inr [OF p] obtain stored where
      g: "get_context h (lookup h this ''builder'') = Inr stored" and
      x: "parentContext p = (case stored of Some c \<Rightarrow> c | None \<Rightarrow> ambient)" by blast
    have l: "lookup h this ''builder'' = JRef b" using a by simp
    have "get_context h (JRef b) = Inr (Some captured)"
      by (simp add: get_context_def nullish_def c)
    then have "stored = Some captured" using g unfolding l by simp
    then show "par = captured" using q x by simp
  }
  {
    assume a: "get_context h (lookup h this ''builder'') = Inr None \<and>
               StartSpan s' nm k attrs par \<in>
                 set (events (createQueryWrapper d inst ver original s ambient this args h))"
    from a started_span obtain p where
      p: "prepare d inst ver ambient h this (query_of args) = Inr p" and
      q: "par = parentContext p" by blast
    from prepare_Inr [OF p] obtain stored where
      g: "get_context h (lookup h this ''builder'') = Inr stored" and
      x: "parentContext p = (case stored of Some c \<Rightarrow> c | None \<Rightarrow> ambient)" by blast
    have "stored = None" using g a by simp
    then show "par = ambient" using q x by simp
  }
qed

theorem captured_context_is_parent_witness:
  "returning 2 (JRef 1) [] example_heap = (Inr (JRef 2), example_heap) \<and>
   contextSymbol (example_heap 2) = None \<and> extensible (example_heap 2) \<and>
   storeContext (returning 2) (Context 1 (Some (Span 7))) (JRef 1) [] example_heap =
     (Inr (JRef 2),
      example_heap(2 := (example_heap 2)\<lparr>contextSymbol :=
         Some \<lparr>pvalue = Context 1 (Some (Span 7)), writable = False, enumerable = False,
               configurable = False\<rparr>\<rparr>)) \<and>
   Context 2 None \<noteq> Context 1 (Some (Span 7)) \<and>
   defineProperty (snd (storeContext (returning 2) (Context 1 (Some (Span 7))) (JRef 1) []
                          example_heap)) (JRef 2) (Context 2 None) = Inl TypeError \<and>
   lookup (snd (storeContext (returning 2) (Context 1 (Some (Span 7))) (JRef 1) []
                  example_heap)) (JRef 0) ''builder'' = JRef 2 \<and>
   (\<exists>nm attrs.
      events (createQueryWrapper example_deps (constructor None) (JStr ''1.0.0'')
                (fulfilling (JStr ''rows'')) (Span 1) (Context 2 None) (JRef 0) [JRef 5]
                (snd (storeContext (returning 2) (Context 1 (Some (Span 7))) (JRef 1) []
                        example_heap))) =
        [StartSpan (Span 1) nm CLIENT attrs (Context 1 (Some (Span 7))),
         Invoke (Context 2 (Some (Span 1))) (JRef 0) [JRef 5], EndSpan (Span 1)]) \<and>
   get_context example_heap (lookup example_heap (JRef 0) ''builder'') = Inr None \<and>
   (\<exists>nm attrs.
      events (createQueryWrapper example_deps (constructor None) (JStr ''1.0.0'')
                (fulfilling (JStr ''rows'')) (Span 1) (Context 2 None) (JRef 0) [JRef 5]
                example_heap) =
        [StartSpan (Span 1) nm CLIENT attrs (Context 2 None),
         Invoke (Context 2 (Some (Span 1))) (JRef 0) [JRef 5], EndSpan (Span 1)])"
proof -
  let ?C1 = "Context 1 (Some (Span 7))"
  let ?C2 = "Context 2 None"
  let ?h2 = "snd (storeContext (returning 2) ?C1 (JRef 1) [] example_heap)"
  let ?run = "\<lambda>h. createQueryWrapper example_deps (constructor None) (JStr ''1.0.0'')
                     (fulfilling (JStr ''rows'')) (Span 1) ?C2 (JRef 0) [JRef 5] h"
  have r: "returning 2 (JRef 1) [] example_heap = (Inr (JRef 2), example_heap)"
    by (simp add: returning_def)
  have f: "contextSymbol (example_heap 2) = None" "extensible (example_heap 2)"
    by (simp_all add: example_heap_def plain_object_def)
  note applied = captured_context_is_parent
               [where factory = "returning 2" and fthis = "JRef 1" and fargs = "[]"
                  and captured = ?C1 and ambient = ?C2 and d = example_deps
                  and inst = "constructor None"
                  and ver = "JStr ''1.0.0''" and original = "fulfilling (JStr ''rows'')"
                  and s = "Span 1" and this = "JRef 0" and args = "[JRef 5]", OF r f]
  have st: "storeContext (returning 2) ?C1 (JRef 1) [] example_heap =
     (Inr (JRef 2),
      example_heap(2 := (example_heap 2)\<lparr>contextSymbol :=
         Some \<lparr>pvalue = ?C1, writable = False, enumerable = False,
               configurable = False\<rparr>\<rparr>))"
    using applied by (rule conjunct1)
  have h2: "?h2 = example_heap(2 := (example_heap 2)\<lparr>contextSymbol :=
         Some \<lparr>pvalue = ?C1, writable = False, enumerable = False,
               configurable = False\<rparr>\<rparr>)"
    unfolding st by (rule snd_conv)
  have b: "lookup ?h2 (JRef 0) ''builder'' = JRef 2"
    unfolding h2 by (simp add: example_store)
  have n: "get_context example_heap (lookup example_heap (JRef 0) ''builder'') = Inr None"
    by (simp add: get_context_def example_store)
  have ev: "\<exists>p::prepared. events (?run h) =
                  [StartSpan (Span 1) (span_name p) CLIENT (span_attributes p) (parentContext p),
                   Invoke (Context 2 (Some (Span 1))) (JRef 0) [JRef 5], EndSpan (Span 1)]"
    if "\<exists>p. prepare example_deps (constructor None) (JStr ''1.0.0'') ?C2 h (JRef 0)
                (query_of [JRef 5]) = Inr p" for h
  proof -
    from that obtain p where
      p: "prepare example_deps (constructor None) (JStr ''1.0.0'') ?C2 h (JRef 0)
            (query_of [JRef 5]) = Inr p" ..
    have o: "fulfilling (JStr ''rows'') (setSpan ?C2 (Span 1)) (JRef 0) [JRef 5] h
               = (Fulfilled (JStr ''rows''), h)"
      by (simp add: fulfilling_def)
    have e: "events (?run h) =
            [StartSpan (Span 1) (span_name p) CLIENT (span_attributes p) (parentContext p),
             Invoke (Context 2 (Some (Span 1))) (JRef 0) [JRef 5], EndSpan (Span 1)]"
      using wrapper_traced [where original = "fulfilling (JStr ''rows'')", OF p default_traces o]
      by (simp add: events_def setSpan_def)
    show ?thesis by (rule exI [where x = p]) (rule e)
  qed
  have "\<exists>p. prepare example_deps (constructor None) (JStr ''1.0.0'') ?C2 ?h2 (JRef 0)
              (query_of [JRef 5]) = Inr p"
    unfolding h2 by (simp add: prepare_def example_store get_context_def Let_def)
  from ev [OF this] obtain p :: prepared where
    e2: "events (?run ?h2) =
           [StartSpan (Span 1) (span_name p) CLIENT (span_attributes p) (parentContext p),
            Invoke (Context 2 (Some (Span 1))) (JRef 0) [JRef 5], EndSpan (Span 1)]" ..
  have "\<exists>p. prepare example_deps (constructor None) (JStr ''1.0.0'') ?C2 example_heap (JRef 0)
              (query_of [JRef 5]) = Inr p"
    by (simp add: prepare_def example_store get_context_def Let_def)
  from ev [OF this] obtain p' :: prepared where
    e0: "events (?run example_heap) =
           [StartSpan (Span 1) (span_name p') CLIENT (span_attributes p') (parentContext p'),
            Invoke (Context 2 (Some (Span 1))) (JRef 0) [JRef 5], EndSpan (Span 1)]" ..
  have m2: "StartSpan (Span 1) (span_name p) CLIENT (span_attributes p) (parentContext p)
              \<in> set (events (?run ?h2))" unfolding e2 by simp
  have m0: "StartSpan (Span 1) (span_name p') CLIENT (span_attributes p') (parentContext p')
              \<in> set (events (?run example_heap))" unfolding e0 by simp
  have same: "contextSymbol (?h2 2) = contextSymbol (?h2 2)" ..
  note again = applied [THEN conjunct2, THEN conjunct1, rule_format]
  note stored = applied [THEN conjunct2, THEN conjunct2, THEN conjunct1, rule_format]
  note fallback = applied [THEN conjunct2, THEN conjunct2, THEN conjunct2, rule_format]
  have d: "?C2 \<noteq> ?C1" by simp
  have o: "defineProperty ?h2 (JRef 2) ?C2 = Inl TypeError" using d by (rule again)
  have "parentContext p = ?C1" using same b m2 by (rule stored [OF conjI [OF _ conjI]])
  moreover have "parentContext p' = ?C2" using n m0 by (rule fallback [OF conjI])
  ultimately have e:
    "events (?run ?h2) =
       [StartSpan (Span 1) (span_name p) CLIENT (span_attributes p) ?C1,
        Invoke (Context 2 (Some (Span 1))) (JRef 0) [JRef 5], EndSpan (Span 1)]"
    "events (?run example_heap) =
       [StartSpan (Span 1) (span_name p') CLIENT (span_attributes p') ?C2,
        Invoke (Context 2 (Some (Span 1))) (JRef 0) [JRef 5], EndSpan (Span 1)]"
    using e2 e0 by simp_all
  have x2:
    "\<exists>nm attrs. events (?run ?h2) =
       [StartSpan (Span 1) nm CLIENT attrs ?C1,
        Invoke (Context 2 (Some (Span 1))) (JRef 0) [JRef 5], EndSpan (Span 1)]"
    by (rule exI [where x = "span_name p"], rule exI [where x = "span_attributes p"])
       (rule e(1))
  have x0:
    "\<exists>nm attrs. events (?run example_heap) =
       [StartSpan (Span 1) nm CLIENT attrs ?C2,
        Invoke (Context 2 (Some (Span 1))) (JRef 0) [JRef 5], EndSpan (Span 1)]"
    by (rule exI [where x = "span_name p'"], rule exI [where x = "span_attributes p'"])
       (rule e(2))
  from r f st d o b x2 n x0 show ?thesis by (intro conjI)
qed

end
